theory Spec2Isabelle
  imports Complex_Main
begin

section \<open>Flow fields: the WebGL variant and the canvas variant\<close>

text \<open>
  The repository holds two flow-field animations: \<^verbatim>\<open>FlowFieldsGL\<close> (particles stepped by a
  fragment shader over a ping-pong pair of float textures) and the canvas version of
  \<^verbatim>\<open>flow.js\<close> (particles stepped in place by \<^verbatim>\<open>Particle.update\<close>).  Both are embedded
  below as HOL functions.  JavaScript numbers and GLSL floats are read as real numbers
  (rounding is not modelled); a division by zero, which HOL evaluates to \<open>0\<close>, is only ever
  relied upon under the guard the source puts in front of it.
\<close>

subsection \<open>Vectors and library functions\<close>

type_synonym vec2 = "real \<times> real"
type_synonym vec3 = "real \<times> real \<times> real"
type_synonym vec4 = "real \<times> real \<times> real \<times> real"

definition vadd :: "vec2 \<Rightarrow> vec2 \<Rightarrow> vec2" where
  "vadd a b = (fst a + fst b, snd a + snd b)"

definition vsub :: "vec2 \<Rightarrow> vec2 \<Rightarrow> vec2" where
  "vsub a b = (fst a - fst b, snd a - snd b)"

definition smul :: "vec2 \<Rightarrow> real \<Rightarrow> vec2" where
  "smul a k = (fst a * k, snd a * k)"

definition sdiv :: "vec2 \<Rightarrow> real \<Rightarrow> vec2" where
  "sdiv a k = (fst a / k, snd a / k)"

definition dot2 :: "vec2 \<Rightarrow> vec2 \<Rightarrow> real" where
  "dot2 a b = fst a * fst b + snd a * snd b"

text \<open>GLSL \<^verbatim>\<open>length\<close> and \<^verbatim>\<open>normalize\<close> on \<^verbatim>\<open>vec2\<close>.\<close>

definition vlength :: "vec2 \<Rightarrow> real" where
  "vlength a = sqrt (fst a * fst a + snd a * snd a)"

definition normalize :: "vec2 \<Rightarrow> vec2" where
  "normalize a = sdiv a (vlength a)"

text \<open>GLSL \<^verbatim>\<open>floor\<close> and \<^verbatim>\<open>fract\<close> return floats; \<^verbatim>\<open>mix(a, b, t)\<close> is linear blending.\<close>

definition floorf :: "real \<Rightarrow> real" where
  "floorf x = real_of_int \<lfloor>x\<rfloor>"

definition fract :: "real \<Rightarrow> real" where
  "fract x = x - floorf x"

definition mix :: "vec2 \<Rightarrow> vec2 \<Rightarrow> real \<Rightarrow> vec2" where
  "mix a b t = vadd (smul a (1 - t)) (smul b t)"

text \<open>
  \<^verbatim>\<open>Math.random()\<close>: the calls of one run consume a stream of numbers one after the other.
  The stream is any sequence of reals; the \<open>k\<close>-th call returns the fractional part of its
  \<open>k\<close>-th element, which lies in \<open>[0, 1)\<close> as the library promises.
\<close>

type_synonym rng = "nat \<Rightarrow> real"

definition Math_random :: "rng \<Rightarrow> nat \<Rightarrow> real" where
  "Math_random r k = fract (r k)"

subsection \<open>WebGL variant: configuration, force fields, instance state\<close>

text \<open>The numeric options of \<^verbatim>\<open>this.config\<close> that the physics pass reads.\<close>

record gl_config =
  particleCount :: nat
  noiseScale :: real
  speed :: real
  noiseMode :: int
  backgroundStrength :: real
  forceFieldStrength :: real
  brownianMotion :: real
  respawnRate :: real
  zonesEnabled :: bool
  zonesStrength :: real
  globalGravity :: real
  forceSpawnRate :: real
  forceLifetime :: real
  maxForceRadius :: real
  globalSwirl :: real
  chargeInteraction :: real
  chargeRatio :: real
  gravityInteraction :: real
  friction :: real
  time :: real

text \<open>The object literal pushed by \<^verbatim>\<open>addForceField\<close>.\<close>

record gl_field =
  gf_x :: real
  gf_y :: real
  gf_type :: int
  gf_strength :: real
  gf_radius :: real
  gf_rotation :: real
  gf_life :: real
  gf_vx :: real
  gf_vy :: real

record gl_mouse =
  gm_x :: real
  gm_y :: real
  gm_radius :: real
  gm_strength :: real
  gm_mode :: int

text \<open>
  A particle texture is a square of \<open>tex_size \<times> tex_size\<close> texels \<open>(x, y, vx, vy)\<close>, kept
  row by row; \<^verbatim>\<open>particleTextures\<close> is the ping-pong pair and \<^verbatim>\<open>currentTexture\<close> the index
  of the one that holds the current state.
\<close>

record texture =
  tex_size :: nat
  texels :: "vec4 list"

record FlowFieldsGL =
  configGL :: gl_config
  forceFieldsGL :: "gl_field list"
  maxForceFields :: nat
  enabledForceTypes :: "bool list"
  mouseGL :: gl_mouse
  particleTextures :: "texture list"
  currentTexture :: nat
  textureSize :: nat
  canvas_width :: real
  canvas_height :: real
  pausedGL :: bool
  rand :: rng
  drawn :: nat

text \<open>
  \<^verbatim>\<open>addForceField(x, y, type = -1)\<close>.  At capacity the oldest entry is shifted out first.
  A negative type asks for a random one among the enabled types; when none is enabled the
  function returns without pushing (the shift above has already happened).
\<close>

definition addForceField :: "real \<Rightarrow> real \<Rightarrow> int \<Rightarrow> FlowFieldsGL \<Rightarrow> FlowFieldsGL" where
  "addForceField x y type s =
    (let fs = (if length (forceFieldsGL s) \<ge> maxForceFields s
               then tl (forceFieldsGL s) else forceFieldsGL s);
         s1 = s\<lparr>forceFieldsGL := fs\<rparr>;
         enabledTypes = filter (\<lambda>i. enabledForceTypes s ! i) [0..<5]
     in if type < 0 \<and> enabledTypes = [] then s1
        else
          let k0 = drawn s;
              finalType = (if type < 0
                 then int (enabledTypes !
                        nat \<lfloor>Math_random (rand s) k0 * real (length enabledTypes)\<rfloor>)
                 else type);
              k = (if type < 0 then k0 + 1 else k0);
              baseLife = 500 + Math_random (rand s) k * 500;
              minRadius = max 40 (maxForceRadius (configGL s) * 0.3);
              radiusRange = maxForceRadius (configGL s) - minRadius;
              f = \<lparr> gf_x = x, gf_y = y, gf_type = finalType,
                    gf_strength = 50 + Math_random (rand s) (k + 1) * 100,
                    gf_radius = minRadius + Math_random (rand s) (k + 2) * radiusRange,
                    gf_rotation = (if Math_random (rand s) (k + 3) > 0.5 then 1 else -1),
                    gf_life = baseLife * forceLifetime (configGL s),
                    gf_vx = (Math_random (rand s) (k + 4) - 0.5) * 0.5,
                    gf_vy = (Math_random (rand s) (k + 5) - 0.5) * 0.5 \<rparr>
          in s1\<lparr>forceFieldsGL := fs @ [f], drawn := k + 6\<rparr>)"

text \<open>
  One iteration of the loop of \<^verbatim>\<open>updateForceFields\<close>: drift, age, flip the drift on leaving
  the canvas.  The loop runs from the last index down and splices out a field whose life has
  run out; \<open>uff_loop n\<close> handles the indices below \<open>n\<close>.
\<close>

definition field_step :: "real \<Rightarrow> real \<Rightarrow> gl_field \<Rightarrow> gl_field" where
  "field_step w h f =
    (let x = gf_x f + gf_vx f; y = gf_y f + gf_vy f
     in f\<lparr> gf_x := x, gf_y := y, gf_life := gf_life f - 1,
           gf_vx := (if x < 0 \<or> x > w then gf_vx f * (-1) else gf_vx f),
           gf_vy := (if y < 0 \<or> y > h then gf_vy f * (-1) else gf_vy f) \<rparr>)"

fun uff_loop :: "real \<Rightarrow> real \<Rightarrow> nat \<Rightarrow> gl_field list \<Rightarrow> gl_field list" where
  "uff_loop w h 0 fs = fs"
| "uff_loop w h (Suc i) fs =
    (let f = field_step w h (fs ! i)
     in uff_loop w h i (if gf_life f \<le> 0 then take i fs @ drop (Suc i) fs else fs[i := f]))"

definition updateForceFields :: "FlowFieldsGL \<Rightarrow> FlowFieldsGL" where
  "updateForceFields s =
    (let fs = uff_loop (canvas_width s) (canvas_height s)
                (length (forceFieldsGL s)) (forceFieldsGL s);
         s1 = s\<lparr>forceFieldsGL := fs\<rparr>
     in if forceSpawnRate (configGL s) > 0
        then (let s2 = s1\<lparr>drawn := drawn s + 1\<rparr>
              in if Math_random (rand s) (drawn s) < forceSpawnRate (configGL s) / 60
                    \<and> length fs < maxForceFields s
                 then addForceField (Math_random (rand s) (drawn s + 1) * canvas_width s)
                        (Math_random (rand s) (drawn s + 2) * canvas_height s) (-1)
                        (s2\<lparr>drawn := drawn s + 3\<rparr>)
                 else s2)
        else s1)"

text \<open>
  \<^verbatim>\<open>getForceFieldUniforms\<close>: a zero-filled array of \<open>40 * 8\<close> floats; slot \<open>i\<close> carries the
  \<open>i\<close>-th field with its life divided by 500 and the active flag 1, when there is such a
  field and \<open>i\<close> is below \<^verbatim>\<open>Math.min(this.maxForceFields, 40)\<close>.
\<close>

definition uniform_slot :: "FlowFieldsGL \<Rightarrow> nat \<Rightarrow> real list" where
  "uniform_slot s i =
    (if i < min (maxForceFields s) 40 \<and> i < length (forceFieldsGL s)
     then (let f = forceFieldsGL s ! i
           in [gf_x f, gf_y f, real_of_int (gf_type f), gf_strength f, gf_radius f,
               gf_rotation f, gf_life f / 500, 1])
     else [0, 0, 0, 0, 0, 0, 0, 0])"

definition getForceFieldUniforms :: "FlowFieldsGL \<Rightarrow> real list" where
  "getForceFieldUniforms s = concat (map (uniform_slot s) [0..<40])"

subsection \<open>WebGL variant: the physics fragment shader\<close>

record uniforms =
  u_particles :: texture
  u_time :: real
  u_resolution :: vec2
  u_noiseScale :: real
  u_speed :: real
  u_noiseMode :: int
  u_backgroundStrength :: real
  u_forceFieldStrength :: real
  u_brownianMotion :: real
  u_globalGravity :: real
  u_globalSwirl :: real
  u_mouse :: vec3
  u_mouseStrength :: real
  u_mouseMode :: int
  u_forceFields :: "real list"
  u_forceFieldCount :: int
  u_respawnRate :: real
  u_zonesEnabled :: bool
  u_zonesStrength :: real
  u_chargeInteraction :: real
  u_chargeRatio :: real
  u_gravityInteraction :: real
  u_friction :: real
  u_textureSize :: real

text \<open>
  \<^verbatim>\<open>texture(u_particles, coord)\<close> with \<^verbatim>\<open>NEAREST\<close> filtering and \<^verbatim>\<open>CLAMP_TO_EDGE\<close>: the
  texel whose cell contains the coordinate, the coordinate clamped to the square.
\<close>

definition texel_index :: "nat \<Rightarrow> real \<Rightarrow> nat" where
  "texel_index n c = nat (max 0 (min (int n - 1) \<lfloor>c * real n\<rfloor>))"

definition texture_fetch :: "texture \<Rightarrow> vec2 \<Rightarrow> vec4" where
  "texture_fetch t c =
    (let k = texel_index (tex_size t) (snd c) * tex_size t + texel_index (tex_size t) (fst c)
     in if k < length (texels t) then texels t ! k else (0, 0, 0, 0))"

text \<open>Simplex noise of the shader; the three lanes of its \<^verbatim>\<open>vec3\<close> values are written out.\<close>

definition mod289 :: "real \<Rightarrow> real" where
  "mod289 x = x - floorf (x * (1 / 289)) * 289"

definition permute :: "real \<Rightarrow> real" where
  "permute x = mod289 (((x * 34) + 1) * x)"

definition snoise_lane :: "real \<Rightarrow> real \<Rightarrow> real \<Rightarrow> real \<Rightarrow> real" where
  "snoise_lane p d a b =
    (let m = max (0.5 - d) 0;
         m2 = m * m;
         m4 = m2 * m2;
         x = 2 * fract (p * 0.024390243902439) - 1;
         h = \<bar>x\<bar> - 0.5;
         ox = floorf (x + 0.5);
         a0 = x - ox;
         m5 = m4 * (1.79284291400159 - 0.85373472095314 * (a0 * a0 + h * h))
     in m5 * (a0 * a + h * b))"

definition snoise :: "vec2 \<Rightarrow> real" where
  "snoise v =
    (let Cx = 0.211324865405187; Cy = 0.366025403784439; Cz = - 0.577350269189626;
         i = (floorf (fst v + dot2 v (Cy, Cy)), floorf (snd v + dot2 v (Cy, Cy)));
         x0 = (fst v - fst i + dot2 i (Cx, Cx), snd v - snd i + dot2 i (Cx, Cx));
         i1 = (if fst x0 > snd x0 then (1, 0) else (0, 1));
         x12xy = (fst x0 + Cx - fst i1, snd x0 + Cx - snd i1);
         x12zw = (fst x0 + Cz, snd x0 + Cz);
         ix = mod289 (fst i);
         iy = mod289 (snd i);
         p0 = permute (permute (iy + 0) + ix + 0);
         p1 = permute (permute (iy + snd i1) + ix + fst i1);
         p2 = permute (permute (iy + 1) + ix + 1)
     in 130 * (snoise_lane p0 (dot2 x0 x0) (fst x0) (snd x0)
             + snoise_lane p1 (dot2 x12xy x12xy) (fst x12xy) (snd x12xy)
             + snoise_lane p2 (dot2 x12zw x12zw) (fst x12zw) (snd x12zw)))"

text \<open>The hash \<^verbatim>\<open>random(st)\<close>.\<close>

definition random :: "vec2 \<Rightarrow> real" where
  "random st =
    (let ax = fract (fst st * 0.1031); ay = fract (snd st * 0.1031); az = fract (fst st * 0.1031);
         d = ax * (ay + 33.33) + ay * (az + 33.33) + az * (ax + 33.33);
         bx = ax + d; by = ay + d; bz = az + d
     in fract ((bx + by) * bz))"

definition getNoiseValue :: "uniforms \<Rightarrow> vec2 \<Rightarrow> real \<Rightarrow> real" where
  "getNoiseValue u pos t =
    (let ns = u_noiseScale u;
         np = (fst pos * ns + t * 0.0001, snd pos * ns + t * 0.0001)
     in if u_noiseMode u = 0 then snoise np
        else if u_noiseMode u = 1 then
          snoise np * 0.5 + snoise (smul np 2) * 0.25
            + snoise (smul np 4) * 0.125 + snoise (smul np 8) * 0.0625
        else if u_noiseMode u = 2 then
          (let n0 = 1 - \<bar>snoise np\<bar>;
               n1 = n0 * n0;
               n2 = n1 + (1 - \<bar>snoise (smul np 2)\<bar>) * 0.5;
               n3 = n2 + (1 - \<bar>snoise (smul np 4)\<bar>) * 0.25
           in n3 * 0.7 - 0.5)
        else if u_noiseMode u = 3 then
          \<bar>snoise np\<bar> * 0.5 + \<bar>snoise (smul np 2)\<bar> * 0.25 + \<bar>snoise (smul np 4)\<bar> * 0.125
        else if u_noiseMode u = 4 then
          (let warpX = snoise np * 0.5;
               warpY = snoise (vadd np (5.2, 1.3)) * 0.5
           in snoise (vadd np (warpX, warpY)) + snoise (smul (vadd np (warpX, warpY)) 2) * 0.5)
        else 0)"

text \<open>
  \<^verbatim>\<open>getForceFieldEffect\<close>.  \<open>ffe_body\<close> is one pass through the loop body for slot \<open>i\<close>
  (a \<^verbatim>\<open>continue\<close> leaves the total as it is), \<open>ffe_loop\<close> is the loop
  \<^verbatim>\<open>for (int i = 0; i < 16; i++) { if (i >= u_forceFieldCount) break; ... }\<close>.
\<close>

definition ffe_body :: "uniforms \<Rightarrow> vec2 \<Rightarrow> nat \<Rightarrow> vec2 \<Rightarrow> vec2" where
  "ffe_body u pos i totalForce =
    (let idx = i * 8;
         fx = u_forceFields u ! idx;
         fy = u_forceFields u ! (idx + 1);
         ftype = u_forceFields u ! (idx + 2);
         strength = u_forceFields u ! (idx + 3);
         radius = u_forceFields u ! (idx + 4);
         rotation = u_forceFields u ! (idx + 5);
         life = u_forceFields u ! (idx + 6);
         isActive = u_forceFields u ! (idx + 7)
     in if isActive < 0.5 then totalForce
        else
          let diff = vsub pos (fx, fy);
              dist = vlength diff
          in if dist > radius \<or> dist < 5 then totalForce
             else
               let falloff = 1 - (dist / radius);
                   s = (strength / 100) * falloff * life;
                   dir = normalize diff
               in if ftype < 0.5 then vsub totalForce (smul dir s)
                  else if ftype < 1.5 then vadd totalForce (smul dir s)
                  else if ftype < 2.5 then
                    vadd totalForce (smul (smul (sdiv (- snd diff, fst diff) dist) s) rotation)
                  else if ftype < 3.5 then
                    vadd (vsub totalForce (smul (smul dir s) 2))
                         (smul (smul (sdiv (- snd diff, fst diff) dist) s) 0.3)
                  else
                    let angle = snoise (fst pos * 0.1 + u_time u * 0.01,
                                        snd pos * 0.1 + u_time u * 0.01) * 6.28318
                    in vadd totalForce (smul (smul (cos angle, sin angle) s) 2))"

function ffe_loop :: "uniforms \<Rightarrow> vec2 \<Rightarrow> nat \<Rightarrow> vec2 \<Rightarrow> vec2" where
  "ffe_loop u pos i totalForce =
    (if i < 16
     then (if int i \<ge> u_forceFieldCount u then totalForce
           else ffe_loop u pos (i + 1) (ffe_body u pos i totalForce))
     else totalForce)"
  by pat_completeness auto
termination
  by (relation "measure (\<lambda>(u, pos, i, totalForce). 16 - i)") auto

declare ffe_loop.simps [simp del]

definition getForceFieldEffect :: "uniforms \<Rightarrow> vec2 \<Rightarrow> vec2" where
  "getForceFieldEffect u pos = ffe_loop u pos 0 (0, 0)"

text \<open>Particle charge, and the two sampled particle-particle forces (16 probes each).\<close>

definition getCharge :: "uniforms \<Rightarrow> vec2 \<Rightarrow> real" where
  "getCharge u texCoord =
    (let ident = fst texCoord * u_textureSize u
                 + snd texCoord * u_textureSize u * u_textureSize u
     in if fract (ident * 0.7919) < u_chargeRatio u then 1 else -1)"

definition probe_coord :: "uniforms \<Rightarrow> vec2 \<Rightarrow> nat \<Rightarrow> vec2" where
  "probe_coord u texCoord i =
    (let angle = real i * 2.399 + u_time u * 0.01;
         r = (real i + 1) * 0.05;
         offset = smul (cos angle, sin angle) r
     in (fract (fst texCoord + fst offset), fract (snd texCoord + snd offset)))"

definition charge_body :: "uniforms \<Rightarrow> vec2 \<Rightarrow> vec2 \<Rightarrow> vec2 \<Rightarrow> nat \<Rightarrow> vec2" where
  "charge_body u pos texCoord totalForce i =
    (let sampleCoord = probe_coord u texCoord i;
         other = texture_fetch (u_particles u) sampleCoord;
         otherPos = (fst other, fst (snd other));
         otherCharge = getCharge u sampleCoord;
         diff = vsub pos otherPos;
         dist = vlength diff
     in if dist > 5 \<and> dist < 100
        then (let forceMag = 1 / (dist * dist + 10);
                  dir = normalize diff;
                  chargeProduct = getCharge u texCoord * otherCharge
              in vadd totalForce (smul (smul (smul dir forceMag) chargeProduct) 50))
        else totalForce)"

definition getChargeInteraction :: "uniforms \<Rightarrow> vec2 \<Rightarrow> vec2 \<Rightarrow> vec2" where
  "getChargeInteraction u pos texCoord =
    (if u_chargeInteraction u < 0.001 then (0, 0)
     else smul (foldl (charge_body u pos texCoord) (0, 0) [0..<16]) (u_chargeInteraction u))"

definition gravity_body :: "uniforms \<Rightarrow> vec2 \<Rightarrow> vec2 \<Rightarrow> vec2 \<Rightarrow> nat \<Rightarrow> vec2" where
  "gravity_body u pos texCoord totalForce i =
    (let sampleCoord = probe_coord u texCoord i;
         other = texture_fetch (u_particles u) sampleCoord;
         otherPos = (fst other, fst (snd other));
         diff = vsub otherPos pos;
         dist = vlength diff
     in if dist > 5 \<and> dist < 120
        then (let forceMag = 1 / (dist * dist + 10);
                  dir = normalize diff
              in vadd totalForce (smul (smul dir forceMag) 50))
        else totalForce)"

definition getGravityInteraction :: "uniforms \<Rightarrow> vec2 \<Rightarrow> vec2 \<Rightarrow> vec2" where
  "getGravityInteraction u pos texCoord =
    (if \<bar>u_gravityInteraction u\<bar> < 0.001 then (0, 0)
     else smul (foldl (gravity_body u pos texCoord) (0, 0) [0..<16]) (u_gravityInteraction u))"

text \<open>
  The parts of \<^verbatim>\<open>main\<close>, in the order of the shader: background flow, mouse force, global
  forces, zones, velocity update, wrap, respawn.
\<close>

definition main_flowDir :: "uniforms \<Rightarrow> vec2 \<Rightarrow> vec2" where
  "main_flowDir u pos =
    (let noiseVal = getNoiseValue u pos (u_time u)
     in if u_noiseMode u = 5 then (0, 0)
        else (let posOffset = (fst pos + snd pos) * 0.001;
                  angle = (noiseVal + posOffset) * 12.566370614
              in smul (smul (cos angle, sin angle) (u_speed u)) (u_backgroundStrength u)))"

definition main_brownian :: "uniforms \<Rightarrow> vec2 \<Rightarrow> vec2 \<Rightarrow> vec2" where
  "main_brownian u pos v_texCoord =
    smul (random (fst pos * 0.1 + snd v_texCoord * 999, u_time u + fst v_texCoord * 777) - 0.5,
          random (u_time u * 1.1 + snd v_texCoord * 555, snd pos * 0.1 + fst v_texCoord * 333) - 0.5)
         (u_brownianMotion u)"

definition main_mouseForce :: "uniforms \<Rightarrow> vec2 \<Rightarrow> vec2" where
  "main_mouseForce u pos =
    (let mouse_xy = (fst (u_mouse u), fst (snd (u_mouse u)));
         mouse_z = snd (snd (u_mouse u));
         mouseDiff = vsub pos mouse_xy;
         mouseDist = vlength mouseDiff
     in if mouseDist < mouse_z \<and> mouseDist > 5
        then (let force = (mouse_z - mouseDist) / mouse_z * u_mouseStrength u;
                  mouseDir = normalize mouseDiff
              in if u_mouseMode u = 0
                 then smul (smul (smul (sdiv (- snd mouseDiff, fst mouseDiff) mouseDist)
                                   (u_speed u)) 2) force
                 else if u_mouseMode u = 1
                 then smul (smul (smul mouseDir (-1)) force) 3
                 else smul (smul mouseDir force) 3)
        else (0, 0))"

definition main_globalForces :: "uniforms \<Rightarrow> vec2 \<Rightarrow> vec2" where
  "main_globalForces u pos =
    (let g = (0, - u_globalGravity u)
     in if \<bar>u_globalSwirl u\<bar> > 0.001
        then (let center = smul (u_resolution u) 0.5;
                  toCenter = vsub pos center;
                  perpendicular = (- snd toCenter, fst toCenter);
                  dist = vlength toCenter;
                  swirlStrength = u_globalSwirl u * (1 - dist / vlength center)
              in vadd g (smul (smul (normalize perpendicular) swirlStrength) 2))
        else g)"

definition main_zones :: "uniforms \<Rightarrow> vec2 \<Rightarrow> vec2 \<Rightarrow> vec2" where
  "main_zones u pos flowDir =
    (if u_zonesEnabled u
     then (let zoneNoise = snoise (fst pos * 0.003 + u_time u * 0.0001,
                                   snd pos * 0.003 + u_time u * 0.0001);
               zoneNoise2 = snoise (vadd (smul pos 0.005) (100, 50))
           in if zoneNoise < - 0.3 then smul flowDir (1.5 * u_zonesStrength u)
              else if zoneNoise > 0.3
              then (let center = vadd pos (snoise (smul pos 0.01) * 100,
                                           snoise (smul (snd pos, fst pos) 0.01) * 100);
                        toCenter = vsub center pos;
                        perpendicular = smul (smul (- snd toCenter, fst toCenter) 0.02)
                                             (u_zonesStrength u)
                    in vadd flowDir perpendicular)
              else (let turbAngle = zoneNoise2 * 6.28318
                    in vadd flowDir (smul (smul (cos turbAngle, sin turbAngle) 0.5)
                                          (u_zonesStrength u))))
     else flowDir)"

text \<open>
  The wrap of one axis: \<^verbatim>\<open>if (p < 0.0) p += r; if (p > r) p -= r;\<close> (each test once).
\<close>

definition wrap_axis :: "real \<Rightarrow> real \<Rightarrow> real" where
  "wrap_axis r p = (let p1 = (if p < 0 then p + r else p) in if p1 > r then p1 - r else p1)"

text \<open>
  \<open>main_vel\<close> is \<^verbatim>\<open>main\<close> up to and including the velocity update; \<open>main\<close> then moves the
  particle, wraps it, and respawns it when its random draw is below the respawn rate.
\<close>

definition main_vel :: "uniforms \<Rightarrow> vec2 \<Rightarrow> vec2" where
  "main_vel u v_texCoord =
    (let particle = texture_fetch (u_particles u) v_texCoord;
         pos = (fst particle, fst (snd particle));
         vel = (fst (snd (snd particle)), snd (snd (snd particle)));
         flowDir0 = main_flowDir u pos;
         forceEffect = vadd (smul (getForceFieldEffect u pos) (u_forceFieldStrength u))
                            (vadd (getChargeInteraction u pos v_texCoord)
                                  (getGravityInteraction u pos v_texCoord));
         brownian = main_brownian u pos v_texCoord;
         mouseForce = main_mouseForce u pos;
         flowDir1 = vadd flowDir0 mouseForce;
         globalForces = main_globalForces u pos;
         flowDir2 = vadd flowDir1 globalForces;
         flowDir = main_zones u pos flowDir2
     in if u_noiseMode u = 5
        then (let acceleration =
                    smul (vadd (vadd (vadd forceEffect mouseForce) globalForces) brownian) 0.1
              in smul (vadd vel acceleration) (1 - u_friction u))
        else mix vel (vadd (vadd flowDir forceEffect) brownian) 0.3)"

definition main :: "uniforms \<Rightarrow> vec2 \<Rightarrow> vec4" where
  "main u v_texCoord =
    (let particle = texture_fetch (u_particles u) v_texCoord;
         pos = (fst particle, fst (snd particle));
         vel1 = main_vel u v_texCoord;
         pos1 = vadd pos vel1;
         pos2 = (wrap_axis (fst (u_resolution u)) (fst pos1),
                 wrap_axis (snd (u_resolution u)) (snd pos1));
         respawnRand = random (vadd (smul v_texCoord 777) (u_time u, u_time u))
     in if respawnRand < u_respawnRate u
        then (let seedX = random (snd v_texCoord * 9999, u_time u * 3.7 + fst v_texCoord * 1111);
                  seedY = random (u_time u * 2.3 + fst v_texCoord * 7777, snd v_texCoord * 3333)
              in (seedX * fst (u_resolution u), seedY * snd (u_resolution u), 0, 0))
        else (fst pos2, snd pos2, fst vel1, snd vel1))"

subsection \<open>WebGL variant: one frame\<close>

text \<open>
  The physics pass draws a quad over a viewport of \<open>textureSize \<times> textureSize\<close> pixels, so
  \<^verbatim>\<open>main\<close> runs once per texel, with \<^verbatim>\<open>v_texCoord\<close> the centre of the texel, and its
  output becomes that texel of the texture attached to the bound framebuffer.
\<close>

definition texel_centre :: "nat \<Rightarrow> nat \<Rightarrow> vec2" where
  "texel_centre n k = ((real (k mod n) + 0.5) / real n, (real (k div n) + 0.5) / real n)"

definition physics_pass :: "uniforms \<Rightarrow> nat \<Rightarrow> texture" where
  "physics_pass u n =
    \<lparr> tex_size = n, texels = map (\<lambda>k. main u (texel_centre n k)) [0..<n * n] \<rparr>"

text \<open>The uniforms \<^verbatim>\<open>update\<close> sets before drawing, from the instance and the texture it reads.\<close>

definition set_uniforms :: "FlowFieldsGL \<Rightarrow> texture \<Rightarrow> uniforms" where
  "set_uniforms s readTex =
    \<lparr> u_particles = readTex,
      u_time = time (configGL s),
      u_resolution = (canvas_width s, canvas_height s),
      u_noiseScale = noiseScale (configGL s),
      u_speed = speed (configGL s),
      u_noiseMode = noiseMode (configGL s),
      u_backgroundStrength = backgroundStrength (configGL s),
      u_forceFieldStrength = forceFieldStrength (configGL s),
      u_brownianMotion = brownianMotion (configGL s),
      u_globalGravity = globalGravity (configGL s),
      u_globalSwirl = globalSwirl (configGL s),
      u_mouse = (gm_x (mouseGL s), gm_y (mouseGL s), gm_radius (mouseGL s)),
      u_mouseStrength = gm_strength (mouseGL s),
      u_mouseMode = gm_mode (mouseGL s),
      u_forceFields = getForceFieldUniforms s,
      u_forceFieldCount = int (length (forceFieldsGL s)),
      u_respawnRate = respawnRate (configGL s),
      u_zonesEnabled = zonesEnabled (configGL s),
      u_zonesStrength = zonesStrength (configGL s),
      u_chargeInteraction = chargeInteraction (configGL s),
      u_chargeRatio = chargeRatio (configGL s),
      u_gravityInteraction = gravityInteraction (configGL s),
      u_friction = friction (configGL s),
      u_textureSize = real (textureSize s) \<rparr>"

text \<open>
  \<^verbatim>\<open>update()\<close>: age the force fields, read \<^verbatim>\<open>particleTextures[currentTexture]\<close>, render the
  physics pass into the framebuffer of \<^verbatim>\<open>particleTextures[1 - currentTexture]\<close>, flip
  \<^verbatim>\<open>currentTexture\<close>, advance the time.
\<close>

definition update :: "FlowFieldsGL \<Rightarrow> FlowFieldsGL" where
  "update s =
    (let s1 = updateForceFields s;
         readTex = particleTextures s1 ! currentTexture s1;
         writeIdx = 1 - currentTexture s1;
         written = physics_pass (set_uniforms s1 readTex) (textureSize s1)
     in s1\<lparr> particleTextures := (particleTextures s1)[writeIdx := written],
            currentTexture := 1 - currentTexture s1,
            configGL := (configGL s1)\<lparr>time := time (configGL s1) + 1\<rparr> \<rparr>)"

text \<open>
  \<^verbatim>\<open>render()\<close> binds \<^verbatim>\<open>particleTextures[currentTexture]\<close> and draws one point per particle
  index, each vertex fetching its own texel; \<open>render_points\<close> is what the compositor is given.
\<close>

definition render_source :: "FlowFieldsGL \<Rightarrow> texture" where
  "render_source s = particleTextures s ! currentTexture s"

definition render_points :: "FlowFieldsGL \<Rightarrow> vec4 list" where
  "render_points s =
    map (\<lambda>i. texture_fetch (render_source s) (texel_centre (textureSize s) i))
        [0..<particleCount (configGL s)]"

definition animateGL :: "FlowFieldsGL \<Rightarrow> FlowFieldsGL" where
  "animateGL s = (if \<not> pausedGL s then update s else s)"

text \<open>
  \<^verbatim>\<open>setConfig(key, value)\<close> stores the value under the key, as it is given.  The model
  covers the float options; a key that names none of them leaves these options as they are.
\<close>

definition setConfig :: "string \<Rightarrow> real \<Rightarrow> FlowFieldsGL \<Rightarrow> FlowFieldsGL" where
  "setConfig key v s =
    s\<lparr>configGL :=
      (let c = configGL s
       in if key = ''noiseScale'' then c\<lparr>noiseScale := v\<rparr>
          else if key = ''speed'' then c\<lparr>speed := v\<rparr>
          else if key = ''backgroundStrength'' then c\<lparr>backgroundStrength := v\<rparr>
          else if key = ''forceFieldStrength'' then c\<lparr>forceFieldStrength := v\<rparr>
          else if key = ''brownianMotion'' then c\<lparr>brownianMotion := v\<rparr>
          else if key = ''respawnRate'' then c\<lparr>respawnRate := v\<rparr>
          else if key = ''zonesStrength'' then c\<lparr>zonesStrength := v\<rparr>
          else if key = ''globalGravity'' then c\<lparr>globalGravity := v\<rparr>
          else if key = ''forceSpawnRate'' then c\<lparr>forceSpawnRate := v\<rparr>
          else if key = ''forceLifetime'' then c\<lparr>forceLifetime := v\<rparr>
          else if key = ''maxForceRadius'' then c\<lparr>maxForceRadius := v\<rparr>
          else if key = ''globalSwirl'' then c\<lparr>globalSwirl := v\<rparr>
          else if key = ''chargeInteraction'' then c\<lparr>chargeInteraction := v\<rparr>
          else if key = ''chargeRatio'' then c\<lparr>chargeRatio := v\<rparr>
          else if key = ''gravityInteraction'' then c\<lparr>gravityInteraction := v\<rparr>
          else if key = ''friction'' then c\<lparr>friction := v\<rparr>
          else if key = ''time'' then c\<lparr>time := v\<rparr>
          else c)\<rparr>"

subsection \<open>Canvas variant: configuration and force fields\<close>

record config =
  c_particleCount :: nat
  c_noiseScale :: real
  c_speed :: real
  c_colorScheme :: nat
  c_noiseMode :: int
  c_backgroundStrength :: real
  c_forceFieldStrength :: real
  c_brownianMotion :: real
  c_spawnRate :: real
  c_mouseMode :: string
  c_globalGravity :: real
  c_particleInteraction :: string
  c_interactionStrength :: real
  c_interactionRadius :: real
  c_fieldDriftSpeed :: real
  c_respawnRate :: real

definition colorSchemes :: "string list list" where
  "colorSchemes =
    [[''#00ff87'', ''#60efff'', ''#ff00ff'', ''#ff0080''],
     [''#ff6b35'', ''#f7c59f'', ''#efefef'', ''#2e294e''],
     [''#0077b6'', ''#00b4d8'', ''#90e0ef'', ''#caf0f8''],
     [''#2d6a4f'', ''#40916c'', ''#52b788'', ''#95d5b2''],
     [''#ff0000'', ''#ff5500'', ''#ff9900'', ''#ffcc00''],
     [''#ff00ff'', ''#00ffff'', ''#ff00aa'', ''#00ff00''],
     [''#ffffff'', ''#cccccc'', ''#999999'', ''#666666''],
     [''#ff71ce'', ''#01cdfe'', ''#05ffa1'', ''#b967ff'']]"

text \<open>
  The tables of a \<^verbatim>\<open>NoiseGenerator\<close> (\<^verbatim>\<open>perm\<close> and \<^verbatim>\<open>gradP\<close>, 512 entries each) are taken
  as they are; \<^verbatim>\<open>noise2D\<close> is evaluated over them.
\<close>

record NoiseGenerator =
  perm :: "nat list"
  gradP :: "vec3 list"

definition noise_dot :: "vec3 \<Rightarrow> real \<Rightarrow> real \<Rightarrow> real" where
  "noise_dot g x y = fst g * x + fst (snd g) * y"

definition noise_corner :: "vec3 \<Rightarrow> real \<Rightarrow> real \<Rightarrow> real" where
  "noise_corner g x y =
    (let t = 0.5 - x * x - y * y
     in if t < 0 then 0 else (let t2 = t * t in t2 * t2 * noise_dot g x y))"

definition noise2D :: "NoiseGenerator \<Rightarrow> real \<Rightarrow> real \<Rightarrow> real" where
  "noise2D ng x y =
    (let F2 = 0.5 * (sqrt 3 - 1);
         G2 = (3 - sqrt 3) / 6;
         s = (x + y) * F2;
         i = \<lfloor>x + s\<rfloor>;
         j = \<lfloor>y + s\<rfloor>;
         t = real_of_int (i + j) * G2;
         x0 = x - (real_of_int i - t);
         y0 = y - (real_of_int j - t);
         i1 = (if x0 > y0 then 1 else 0);
         j1 = (if x0 > y0 then 0 else 1);
         x1 = x0 - real i1 + G2;
         y1 = y0 - real j1 + G2;
         x2 = x0 - 1 + 2 * G2;
         y2 = y0 - 1 + 2 * G2;
         ii = nat (i mod 256);
         jj = nat (j mod 256);
         gi0 = gradP ng ! (ii + perm ng ! jj);
         gi1 = gradP ng ! (ii + i1 + perm ng ! (jj + j1));
         gi2 = gradP ng ! (ii + 1 + perm ng ! (jj + 1))
     in 70 * (noise_corner gi0 x0 y0 + noise_corner gi1 x1 y1 + noise_corner gi2 x2 y2))"

record ForceField =
  ff_x :: real
  ff_y :: real
  ff_vx :: real
  ff_vy :: real
  ff_type :: string
  ff_strength :: real
  ff_radius :: real
  ff_rotation :: real
  ff_life :: real
  ff_maxLife :: real
  ff_pulsePhase :: real
  ff_shearAngle :: real
  ff_laneAngle :: real
  ff_turbulenceSeed :: real

definition allTypes :: "string list" where
  "allTypes = [''sink'', ''source'', ''vortex'', ''vortex'', ''gravity'', ''shear'',
               ''repulsor'', ''turbulence'', ''lane'']"

text \<open>
  \<^verbatim>\<open>new ForceField(type)\<close>, drawing from the stream at position \<open>k\<close>; the result is the
  field and the position after the draws.  A missing (or empty) type is drawn from
  \<^verbatim>\<open>allTypes\<close>, and only a vortex draws its rotation.
\<close>

definition new_ForceField ::
  "string option \<Rightarrow> config \<Rightarrow> real \<Rightarrow> real \<Rightarrow> rng \<Rightarrow> nat \<Rightarrow> ForceField \<times> nat" where
  "new_ForceField type cfg w h r k =
    (let x = Math_random r k * w;
         y = Math_random r (k + 1) * h;
         speedMultiplier = 0.5 + Math_random r (k + 2) * 1.5;
         vx = (Math_random r (k + 3) - 0.5) * c_fieldDriftSpeed cfg * speedMultiplier;
         vy = (Math_random r (k + 4) - 0.5) * c_fieldDriftSpeed cfg * speedMultiplier;
         given = (case type of None \<Rightarrow> False | Some t \<Rightarrow> t \<noteq> []);
         ty = (if given then the type
               else allTypes ! nat \<lfloor>Math_random r (k + 5) * real (length allTypes)\<rfloor>);
         k1 = (if given then k + 5 else k + 6);
         strength = 50 + Math_random r k1 * 100;
         radius = 80 + Math_random r (k1 + 1) * 120;
         rotation = (if ty = ''vortex''
                     then (if Math_random r (k1 + 2) > 0.5 then 1 else -1) else 0);
         k2 = (if ty = ''vortex'' then k1 + 3 else k1 + 2);
         life = 500 + Math_random r k2 * 1000
     in (\<lparr> ff_x = x, ff_y = y, ff_vx = vx, ff_vy = vy, ff_type = ty,
            ff_strength = strength, ff_radius = radius, ff_rotation = rotation,
            ff_life = life, ff_maxLife = life,
            ff_pulsePhase = Math_random r (k2 + 1) * pi * 2,
            ff_shearAngle = Math_random r (k2 + 2) * pi * 2,
            ff_laneAngle = Math_random r (k2 + 3) * pi * 2,
            ff_turbulenceSeed = Math_random r (k2 + 4) * 1000 \<rparr>, k2 + 5))"

definition ForceField_update :: "real \<Rightarrow> real \<Rightarrow> ForceField \<Rightarrow> ForceField" where
  "ForceField_update w h f =
    (let x = ff_x f + ff_vx f;
         y = ff_y f + ff_vy f
     in f\<lparr> ff_vx := (if x < 0 \<or> x > w then ff_vx f * (-1) else ff_vx f),
           ff_vy := (if y < 0 \<or> y > h then ff_vy f * (-1) else ff_vy f),
           ff_x := max 0 (min w x),
           ff_y := max 0 (min h y),
           ff_life := ff_life f - 1,
           ff_pulsePhase := ff_pulsePhase f + 0.05 \<rparr>)"

definition isDead :: "ForceField \<Rightarrow> bool" where
  "isDead f = (ff_life f \<le> 0)"

text \<open>The fade factor of \<^verbatim>\<open>getForce\<close>: two tests in a row, the second overriding the first.\<close>

definition lifeFactor :: "ForceField \<Rightarrow> real" where
  "lifeFactor f =
    (let lf = (if ff_life f < 100 then ff_life f / 100 else 1)
     in if ff_life f > ff_maxLife f - 100 then (ff_maxLife f - ff_life f) / 100 else lf)"

text \<open>
  \<^verbatim>\<open>getForce(px, py)\<close>; the noise generator and the frame counter are the globals the
  turbulence case reads.
\<close>

definition getForce :: "NoiseGenerator \<Rightarrow> real \<Rightarrow> ForceField \<Rightarrow> real \<Rightarrow> real \<Rightarrow> vec2" where
  "getForce ng tm f px py =
    (let dx = px - ff_x f;
         dy = py - ff_y f;
         dist = sqrt (dx * dx + dy * dy)
     in if dist > ff_radius f \<or> dist < 5 then (0, 0)
        else
          let pulse = 1 + sin (ff_pulsePhase f) * 0.3;
              falloff = 1 - (dist / ff_radius f);
              strength = (ff_strength f / 100) * falloff * pulse;
              finalStrength = strength * lifeFactor f
          in if ff_type f = ''sink''
               then (- (dx / dist) * finalStrength, - (dy / dist) * finalStrength)
             else if ff_type f = ''source''
               then ((dx / dist) * finalStrength, (dy / dist) * finalStrength)
             else if ff_type f = ''vortex''
               then ((- dy / dist) * finalStrength * ff_rotation f,
                     (dx / dist) * finalStrength * ff_rotation f)
             else if ff_type f = ''gravity''
               then (let gravityStrength = finalStrength * 2
                     in (- (dx / dist) * gravityStrength + (- dy / dist) * gravityStrength * 0.3,
                         - (dy / dist) * gravityStrength + (dx / dist) * gravityStrength * 0.3))
             else if ff_type f = ''shear''
               then (let shearDir = (if dy > 0 then 1 else if dy < 0 then -1 else 1)
                     in (cos (ff_shearAngle f) * finalStrength * shearDir * 1.5,
                         sin (ff_shearAngle f) * finalStrength * shearDir * 1.5))
             else if ff_type f = ''repulsor''
               then (let repelStrength = finalStrength * 3 * (ff_radius f / (dist + 10))
                     in ((dx / dist) * repelStrength, (dy / dist) * repelStrength))
             else if ff_type f = ''turbulence''
               then (let turbAngle = noise2D ng (px * 0.1 + ff_turbulenceSeed f)
                                                (py * 0.1 + tm * 0.01) * pi * 2;
                         turbStrength = finalStrength * 2
                     in (cos turbAngle * turbStrength, sin turbAngle * turbStrength))
             else if ff_type f = ''lane''
               then (cos (ff_laneAngle f) * finalStrength * 2,
                     sin (ff_laneAngle f) * finalStrength * 2)
             else (0, 0))"

subsection \<open>Canvas variant: particles and the frame\<close>

record Particle =
  p_x :: real
  p_y :: real
  p_prevX :: real
  p_prevY :: real
  p_speed :: real
  p_colorIndex :: nat
  p_life :: real
  p_maxLife :: real
  p_velocity :: real
  p_hue :: real

text \<open>\<^verbatim>\<open>mouse.x\<close> and \<^verbatim>\<open>mouse.y\<close> start as \<^verbatim>\<open>null\<close>.\<close>

record mouse_state =
  m_x :: "real option"
  m_y :: "real option"
  m_radius :: real
  m_active :: bool

text \<open>
  The globals of \<^verbatim>\<open>flow.js\<close>.  The spatial grid holds references to the particle objects:
  here, their indices in \<^verbatim>\<open>particles\<close>, so that a neighbour is read as it is at the time
  of the read.  Its keys \<^verbatim>\<open>`${gx},${gy}`\<close> are the pairs of cell numbers.
\<close>

record world =
  cfg :: config
  particles :: "Particle list"
  c_time :: real
  paused :: bool
  spatialGrid :: "int \<times> int \<Rightarrow> nat list"
  mouse :: mouse_state
  forceFields :: "ForceField list"
  showForceFields :: bool
  noise :: NoiseGenerator
  spawnTypeOnClick :: string
  c_width :: real
  c_height :: real
  c_rand :: rng
  c_drawn :: nat

definition GRID_CELL_SIZE :: real where
  "GRID_CELL_SIZE = 40"

definition getSpatialKey :: "real \<Rightarrow> real \<Rightarrow> int \<times> int" where
  "getSpatialKey x y = (\<lfloor>x / GRID_CELL_SIZE\<rfloor>, \<lfloor>y / GRID_CELL_SIZE\<rfloor>)"

definition buildSpatialGrid :: "Particle list \<Rightarrow> (int \<times> int \<Rightarrow> nat list)" where
  "buildSpatialGrid ps =
    foldl (\<lambda>g k. (let key = getSpatialKey (p_x (ps ! k)) (p_y (ps ! k)) in g(key := g key @ [k])))
          (\<lambda>key. []) [0..<length ps]"

definition getNearbyParticles :: "(int \<times> int \<Rightarrow> nat list) \<Rightarrow> real \<Rightarrow> real \<Rightarrow> real \<Rightarrow> nat list" where
  "getNearbyParticles g x y radius =
    (let cellRadius = \<lceil>radius / GRID_CELL_SIZE\<rceil>;
         gx = \<lfloor>x / GRID_CELL_SIZE\<rfloor>;
         gy = \<lfloor>y / GRID_CELL_SIZE\<rfloor>
     in concat (map (\<lambda>dx. concat (map (\<lambda>dy. g (gx + dx, gy + dy)) [- cellRadius..cellRadius]))
                    [- cellRadius..cellRadius]))"

text \<open>\<^verbatim>\<open>reset()\<close>: six draws, in the order of the assignments.\<close>

definition Particle_reset :: "config \<Rightarrow> real \<Rightarrow> real \<Rightarrow> rng \<Rightarrow> nat \<Rightarrow> Particle" where
  "Particle_reset c w h r k =
    \<lparr> p_x = Math_random r k * w,
      p_y = Math_random r (k + 1) * h,
      p_prevX = Math_random r k * w,
      p_prevY = Math_random r (k + 1) * h,
      p_speed = c_speed c * (0.5 + Math_random r (k + 2) * 0.5),
      p_colorIndex = nat \<lfloor>Math_random r (k + 3) * real (length (colorSchemes ! c_colorScheme c))\<rfloor>,
      p_life = 0,
      p_maxLife = 100 + Math_random r (k + 4) * 200,
      p_velocity = 0,
      p_hue = Math_random r (k + 5) \<rparr>"

text \<open>\<^verbatim>\<open>Math.atan2(y, x)\<close>, by quadrant.\<close>

definition atan2 :: "real \<Rightarrow> real \<Rightarrow> real" where
  "atan2 y x =
    (if x > 0 then arctan (y / x)
     else if x < 0 \<and> y \<ge> 0 then arctan (y / x) + pi
     else if x < 0 then arctan (y / x) - pi
     else if y > 0 then pi / 2
     else if y < 0 then - (pi / 2)
     else 0)"

text \<open>
  The steps of \<^verbatim>\<open>Particle.update\<close>, each taking the move accumulated so far.  First the
  background flow (noise modes 0 to 4; mode 5 skips the block, any other value takes the
  \<^verbatim>\<open>default\<close> branch).
\<close>

definition mode_noiseVal :: "int \<Rightarrow> NoiseGenerator \<Rightarrow> real \<Rightarrow> real \<Rightarrow> real" where
  "mode_noiseVal m ng nx ny =
    (if m = 0 then noise2D ng nx ny
     else if m = 1 then
       noise2D ng nx ny * 0.5 + noise2D ng (nx * 2) (ny * 2) * 0.25
         + noise2D ng (nx * 4) (ny * 4) * 0.125 + noise2D ng (nx * 8) (ny * 8) * 0.0625
     else if m = 2 then
       (let n0 = 1 - \<bar>noise2D ng nx ny\<bar>;
            n1 = n0 * n0;
            n2 = n1 + (1 - \<bar>noise2D ng (nx * 2) (ny * 2)\<bar>) * 0.5;
            n3 = n2 + (1 - \<bar>noise2D ng (nx * 4) (ny * 4)\<bar>) * 0.25
        in n3 * 0.7 - 0.5)
     else if m = 3 then
       (let n0 = \<bar>noise2D ng nx ny\<bar> * 0.5 + \<bar>noise2D ng (nx * 2) (ny * 2)\<bar> * 0.25
                 + \<bar>noise2D ng (nx * 4) (ny * 4)\<bar> * 0.125
        in n0 * 2 - 0.5)
     else if m = 4 then
       (let warpX = noise2D ng nx ny * 0.5;
            warpY = noise2D ng (nx + 5.2) (ny + 1.3) * 0.5
        in noise2D ng (nx + warpX) (ny + warpY)
           + noise2D ng ((nx + warpX) * 2) ((ny + warpY) * 2) * 0.5)
     else 0)"

definition flow_move :: "world \<Rightarrow> Particle \<Rightarrow> vec2" where
  "flow_move w p =
    (if c_noiseMode (cfg w) \<noteq> 5
     then (let nx = p_x p * c_noiseScale (cfg w) + c_time w * 0.0001;
               ny = p_y p * c_noiseScale (cfg w) + c_time w * 0.0001;
               noiseVal = mode_noiseVal (c_noiseMode (cfg w)) (noise w) nx ny;
               angle = noiseVal * pi * 4
           in (cos angle * p_speed p * c_backgroundStrength (cfg w),
               sin angle * p_speed p * c_backgroundStrength (cfg w)))
     else (0, 0))"

definition fields_move :: "world \<Rightarrow> Particle \<Rightarrow> vec2 \<Rightarrow> vec2" where
  "fields_move w p mv =
    foldl (\<lambda>m field. (let force = getForce (noise w) (c_time w) field (p_x p) (p_y p)
                       in (fst m + fst force * c_forceFieldStrength (cfg w),
                           snd m + snd force * c_forceFieldStrength (cfg w))))
          mv (forceFields w)"

text \<open>
  Particle interactions.  The accumulator of the loop over the neighbours is
  \<open>(interactX, interactY, alignX, alignY, neighborCount)\<close>.
\<close>

definition activeMode_of :: "world \<Rightarrow> Particle \<Rightarrow> string" where
  "activeMode_of w p =
    (if c_particleInteraction (cfg w) = ''zones''
     then (let zoneNoise = noise2D (noise w) (p_x p * 0.005 + c_time w * 0.0002) (p_y p * 0.005)
           in if zoneNoise < - 0.3 then ''attract''
              else if zoneNoise > 0.3 then ''repel''
              else ''align'')
     else c_particleInteraction (cfg w))"

definition neighbour_step ::
  "world \<Rightarrow> nat \<Rightarrow> string \<Rightarrow> real \<times> real \<times> real \<times> real \<times> nat \<Rightarrow> nat
     \<Rightarrow> real \<times> real \<times> real \<times> real \<times> nat" where
  "neighbour_step w me activeMode acc other =
    (case acc of (interactX, interactY, alignX, alignY, neighborCount) \<Rightarrow>
      if other = me then acc
      else
        let p = particles w ! me;
            q = particles w ! other;
            dx = p_x q - p_x p;
            dy = p_y q - p_y p;
            dist = sqrt (dx * dx + dy * dy);
            ir = c_interactionRadius (cfg w)
        in if dist > 0 \<and> dist < ir
           then (let force = (ir - dist) / ir
                 in if activeMode = ''attract''
                      then (interactX + (dx / dist) * force, interactY + (dy / dist) * force,
                            alignX, alignY, neighborCount + 1)
                    else if activeMode = ''repel''
                      then (interactX - (dx / dist) * force * 2, interactY - (dy / dist) * force * 2,
                            alignX, alignY, neighborCount + 1)
                    else if activeMode = ''align''
                      then (interactX, interactY,
                            alignX + (p_x q - p_prevX q), alignY + (p_y q - p_prevY q),
                            neighborCount + 1)
                    else (interactX, interactY, alignX, alignY, neighborCount + 1))
           else acc)"

definition interaction_move :: "world \<Rightarrow> nat \<Rightarrow> vec2 \<Rightarrow> vec2" where
  "interaction_move w me mv =
    (if c_particleInteraction (cfg w) \<noteq> ''none''
     then
       (let p = particles w ! me;
            nearby = getNearbyParticles (spatialGrid w) (p_x p) (p_y p)
                       (c_interactionRadius (cfg w));
            activeMode = activeMode_of w p
        in case foldl (neighbour_step w me activeMode) (0, 0, 0, 0, 0) nearby of
             (interactX, interactY, alignX, alignY, neighborCount) \<Rightarrow>
               if neighborCount > 0
               then (if activeMode = ''align''
                     then (let ax = alignX / real neighborCount;
                               ay = alignY / real neighborCount;
                               alignMag = sqrt (ax * ax + ay * ay)
                           in if alignMag > 0
                              then (fst mv * 0.7
                                      + (ax / alignMag) * p_speed p * 0.3 * c_interactionStrength (cfg w),
                                    snd mv * 0.7
                                      + (ay / alignMag) * p_speed p * 0.3 * c_interactionStrength (cfg w))
                              else mv)
                     else (fst mv + interactX * c_interactionStrength (cfg w) * 0.5,
                           snd mv + interactY * c_interactionStrength (cfg w) * 0.5))
               else mv)
     else mv)"

text \<open>
  The mouse block.  \<open>mouse_in_reach\<close> is the condition under which its body runs: the
  pointer is active, has a position, and the particle is closer than the radius and
  further than 5.
\<close>

definition mouse_dist :: "world \<Rightarrow> Particle \<Rightarrow> real" where
  "mouse_dist w p =
    (let dx = p_x p - the (m_x (mouse w));
         dy = p_y p - the (m_y (mouse w))
     in sqrt (dx * dx + dy * dy))"

definition mouse_in_reach :: "world \<Rightarrow> Particle \<Rightarrow> bool" where
  "mouse_in_reach w p =
    (m_active (mouse w) \<and> m_x (mouse w) \<noteq> None
     \<and> mouse_dist w p < m_radius (mouse w) \<and> mouse_dist w p > 5)"

definition mouse_move :: "world \<Rightarrow> Particle \<Rightarrow> vec2 \<Rightarrow> vec2" where
  "mouse_move w p mv =
    (if mouse_in_reach w p
     then (let dx = p_x p - the (m_x (mouse w));
               dy = p_y p - the (m_y (mouse w));
               dist = mouse_dist w p;
               force = (m_radius (mouse w) - dist) / m_radius (mouse w);
               mouseAngle = atan2 dy dx
           in if c_mouseMode (cfg w) = ''vortex''
                then (let swirlAngle = mouseAngle + pi / 2;
                          newAngle = atan2 (snd mv) (fst mv);
                          blendedAngle = newAngle * (1 - force * 0.8) + swirlAngle * force * 0.8;
                          speed = sqrt (fst mv * fst mv + snd mv * snd mv)
                      in (cos blendedAngle * speed * (1 + force),
                          sin blendedAngle * speed * (1 + force)))
              else if c_mouseMode (cfg w) = ''attract''
                then (fst mv - (dx / dist) * force * 3, snd mv - (dy / dist) * force * 3)
              else if c_mouseMode (cfg w) = ''repel''
                then (fst mv + (dx / dist) * force * 3, snd mv + (dy / dist) * force * 3)
              else mv)
     else mv)"

text \<open>
  \<^verbatim>\<open>update()\<close> of the particle at index \<open>me\<close>: the move is built up block by block in the
  order of the source (flow, Brownian jitter, force fields, gravity, interactions, mouse),
  then applied; a particle that left the canvas or outlived \<^verbatim>\<open>maxLife\<close> is reset.
\<close>

definition total_move :: "world \<Rightarrow> nat \<Rightarrow> vec2" where
  "total_move w me =
    (let p = particles w ! me;
         m0 = flow_move w p;
         m1 = (if c_brownianMotion (cfg w) > 0
               then (fst m0 + (Math_random (c_rand w) (c_drawn w) - 0.5) * c_brownianMotion (cfg w),
                     snd m0 + (Math_random (c_rand w) (c_drawn w + 1) - 0.5) * c_brownianMotion (cfg w))
               else m0);
         m2 = fields_move w p m1;
         m3 = (if c_globalGravity (cfg w) \<noteq> 0 then (fst m2, snd m2 + c_globalGravity (cfg w)) else m2);
         m4 = interaction_move w me m3
     in mouse_move w p m4)"

definition Particle_update :: "world \<Rightarrow> nat \<Rightarrow> world" where
  "Particle_update w me =
    (let p = particles w ! me;
         mv = total_move w me;
         k = (if c_brownianMotion (cfg w) > 0 then c_drawn w + 2 else c_drawn w);
         p1 = p\<lparr> p_prevX := p_x p, p_prevY := p_y p,
                 p_velocity := sqrt (fst mv * fst mv + snd mv * snd mv),
                 p_x := p_x p + fst mv, p_y := p_y p + snd mv,
                 p_life := p_life p + 1 \<rparr>
     in if p_x p1 < 0 \<or> p_x p1 > c_width w \<or> p_y p1 < 0 \<or> p_y p1 > c_height w
           \<or> p_life p1 > p_maxLife p1
        then w\<lparr> particles := (particles w)[me := Particle_reset (cfg w) (c_width w) (c_height w)
                                                    (c_rand w) k],
                c_drawn := k + 6 \<rparr>
        else w\<lparr> particles := (particles w)[me := p1], c_drawn := k \<rparr>)"

text \<open>
  \<^verbatim>\<open>spawnForceField(type = null)\<close>: below 15 fields a new one is pushed; at 15 the call only
  logs.  The click handler builds its field first and pushes it below 10 fields.
\<close>

definition spawnForceField :: "string option \<Rightarrow> world \<Rightarrow> world" where
  "spawnForceField type w =
    (if length (forceFields w) < 15
     then (case new_ForceField type (cfg w) (c_width w) (c_height w) (c_rand w) (c_drawn w) of
             (f, k) \<Rightarrow> w\<lparr>forceFields := forceFields w @ [f], c_drawn := k\<rparr>)
     else w)"

definition click :: "real \<Rightarrow> real \<Rightarrow> world \<Rightarrow> world" where
  "click clientX clientY w =
    (let type = (if spawnTypeOnClick w = ''random'' then None else Some (spawnTypeOnClick w))
     in case new_ForceField type (cfg w) (c_width w) (c_height w) (c_rand w) (c_drawn w) of
          (f, k) \<Rightarrow>
            (let field = f\<lparr>ff_x := clientX, ff_y := clientY\<rparr>;
                 w1 = w\<lparr>c_drawn := k\<rparr>
             in if length (forceFields w) < 10
                then w1\<lparr>forceFields := forceFields w @ [field]\<rparr>
                else w1))"

definition clearForceFields :: "world \<Rightarrow> world" where
  "clearForceFields w = w\<lparr>forceFields := []\<rparr>"

text \<open>
  \<^verbatim>\<open>field.draw()\<close> paints only, but for a visible turbulence field it calls
  \<^verbatim>\<open>Math.random()\<close> five times; \<open>draw_draws\<close> counts these calls.
\<close>

definition draw_draws :: "bool \<Rightarrow> ForceField \<Rightarrow> nat" where
  "draw_draws shown f = (if shown \<and> ff_type f = ''turbulence'' then 5 else 0)"

text \<open>
  The two respawn loops at the end of a frame.  Each round draws an index; in forces-only
  mode only a particle older than 50 is reset.  (\<^verbatim>\<open>init\<close> creates \<^verbatim>\<open>particleCount\<close>
  particles, so the drawn index always names a particle whenever a round runs.)
\<close>

fun respawn_old :: "nat \<Rightarrow> world \<Rightarrow> world" where
  "respawn_old 0 w = w"
| "respawn_old (Suc n) w =
    (let idx = nat \<lfloor>Math_random (c_rand w) (c_drawn w) * real (length (particles w))\<rfloor>;
         w1 = w\<lparr>c_drawn := c_drawn w + 1\<rparr>
     in respawn_old n
          (if idx < length (particles w) \<and> p_life (particles w ! idx) > 50
           then w1\<lparr> particles := (particles w)[idx := Particle_reset (cfg w) (c_width w)
                                          (c_height w) (c_rand w) (c_drawn w + 1)],
                     c_drawn := c_drawn w + 7 \<rparr>
           else w1))"

fun respawn_any :: "nat \<Rightarrow> world \<Rightarrow> world" where
  "respawn_any 0 w = w"
| "respawn_any (Suc n) w =
    (let idx = nat \<lfloor>Math_random (c_rand w) (c_drawn w) * real (length (particles w))\<rfloor>
     in respawn_any n
          (w\<lparr> particles := (particles w)[idx := Particle_reset (cfg w) (c_width w)
                                        (c_height w) (c_rand w) (c_drawn w + 1)],
              c_drawn := c_drawn w + 7 \<rparr>))"

text \<open>\<^verbatim>\<open>animate()\<close>: one frame of the canvas variant (painting left out).\<close>

definition animate :: "world \<Rightarrow> world" where
  "animate w =
    (if paused w then w
     else
       let effectiveSpawnRate = (if c_noiseMode (cfg w) = 5 then c_spawnRate (cfg w) * 3
                                 else c_spawnRate (cfg w));
           w1 = w\<lparr>c_drawn := c_drawn w + 1\<rparr>;
           w2 = (if Math_random (c_rand w) (c_drawn w) < effectiveSpawnRate
                    \<and> length (forceFields w) < 15
                 then spawnForceField None w1 else w1);
           alive = filter (\<lambda>f. \<not> isDead f) (forceFields w2);
           w3 = w2\<lparr> forceFields := map (ForceField_update (c_width w) (c_height w)) alive,
                      c_drawn := c_drawn w2
                        + sum_list (map (\<lambda>f. draw_draws (showForceFields w)
                                               (ForceField_update (c_width w) (c_height w) f)) alive) \<rparr>;
           w4 = (if c_particleInteraction (cfg w) \<noteq> ''none''
                 then w3\<lparr>spatialGrid := buildSpatialGrid (particles w3)\<rparr> else w3);
           w5 = foldl Particle_update w4 [0..<length (particles w4)];
           w6 = (if c_noiseMode (cfg w) = 5
                 then respawn_old (nat \<lfloor>real (c_particleCount (cfg w)) * 0.002\<rfloor>) w5
                 else w5);
           w7 = (if c_respawnRate (cfg w) > 0
                 then respawn_any (nat \<lfloor>real (c_particleCount (cfg w)) * c_respawnRate (cfg w)\<rfloor>) w6
                 else w6)
       in w7\<lparr>c_time := c_time w + 1\<rparr>)"

text \<open>
  The keyboard handler.  \<^verbatim>\<open>Array.indexOf\<close> gives \<open>-1\<close> for a missing element, so the cycle
  of an unknown value starts again at the first entry; \<^verbatim>\<open>%\<close> keeps the sign of its left
  argument.  The cases \<^verbatim>\<open>'r'\<close> (new noise tables and new particles) and \<^verbatim>\<open>'s'\<close> (save the
  picture) write neither the configuration nor the force fields nor the flags; they are
  left out here, like any key the handler does not name.
\<close>

fun indexOf :: "'a list \<Rightarrow> 'a \<Rightarrow> int" where
  "indexOf [] x = -1"
| "indexOf (y # ys) x = (if y = x then 0 else (let i = indexOf ys x in if i < 0 then -1 else i + 1))"

definition js_rem :: "int \<Rightarrow> int \<Rightarrow> int" where
  "js_rem a b = (if a \<ge> 0 then a mod \<bar>b\<bar> else - ((- a) mod \<bar>b\<bar>))"

definition cycle_next :: "string list \<Rightarrow> string \<Rightarrow> string" where
  "cycle_next xs x = xs ! nat (js_rem (indexOf xs x + 1) (int (length xs)))"

definition cycleColorScheme :: "world \<Rightarrow> world" where
  "cycleColorScheme w =
    (let cs = (c_colorScheme (cfg w) + 1) mod length colorSchemes;
         n = length (colorSchemes ! cs)
     in w\<lparr> cfg := (cfg w)\<lparr>c_colorScheme := cs\<rparr>,
            particles := map (\<lambda>i. (particles w ! i)
                               \<lparr>p_colorIndex := nat \<lfloor>Math_random (c_rand w) (c_drawn w + i) * real n\<rfloor>\<rparr>)
                             [0..<length (particles w)],
            c_drawn := c_drawn w + length (particles w) \<rparr>)"

definition keydown :: "string \<Rightarrow> world \<Rightarrow> world" where
  "keydown key w =
    (if key = '' '' then w\<lparr>paused := \<not> paused w\<rparr>
     else if key = ''c'' then cycleColorScheme w
     else if key = ''1'' then spawnForceField (Some ''sink'') w
     else if key = ''2'' then spawnForceField (Some ''source'') w
     else if key = ''3'' then spawnForceField (Some ''vortex'') w
     else if key = ''4'' then spawnForceField (Some ''gravity'') w
     else if key = ''5'' then spawnForceField (Some ''shear'') w
     else if key = ''6'' then spawnForceField (Some ''repulsor'') w
     else if key = ''7'' then spawnForceField (Some ''turbulence'') w
     else if key = ''8'' then spawnForceField (Some ''lane'') w
     else if key = ''i'' then
       w\<lparr>cfg := (cfg w)\<lparr>c_particleInteraction :=
          cycle_next [''none'', ''attract'', ''repel'', ''align'', ''zones'']
                     (c_particleInteraction (cfg w))\<rparr>\<rparr>
     else if key = ''f'' then w\<lparr>showForceFields := \<not> showForceFields w\<rparr>
     else if key = ''x'' then clearForceFields w
     else if key = ''n'' then
       w\<lparr>cfg := (cfg w)\<lparr>c_noiseMode := js_rem (c_noiseMode (cfg w) + 1) 6\<rparr>\<rparr>
     else if key = ''b'' then
       w\<lparr>cfg := (cfg w)\<lparr>c_brownianMotion := (if c_brownianMotion (cfg w) > 0 then 0 else 1)\<rparr>\<rparr>
     else if key = ''['' then
       w\<lparr>cfg := (cfg w)\<lparr>c_backgroundStrength := max 0 (c_backgroundStrength (cfg w) - 0.2)\<rparr>\<rparr>
     else if key = '']'' then
       w\<lparr>cfg := (cfg w)\<lparr>c_backgroundStrength := min 2 (c_backgroundStrength (cfg w) + 0.2)\<rparr>\<rparr>
     else if key = ''-'' then
       w\<lparr>cfg := (cfg w)\<lparr>c_forceFieldStrength := max 0.2 (c_forceFieldStrength (cfg w) - 0.2)\<rparr>\<rparr>
     else if key = ''='' then
       w\<lparr>cfg := (cfg w)\<lparr>c_forceFieldStrength := min 3 (c_forceFieldStrength (cfg w) + 0.2)\<rparr>\<rparr>
     else if key = ''+'' then
       w\<lparr>cfg := (cfg w)\<lparr>c_spawnRate := min 0.05 (c_spawnRate (cfg w) + 0.005)\<rparr>\<rparr>
     else w)"

text \<open>The configuration \<^verbatim>\<open>flow.js\<close> starts with.\<close>

definition config0 :: config where
  "config0 =
    \<lparr> c_particleCount = 5000, c_noiseScale = 0.003, c_speed = 2, c_colorScheme = 0,
      c_noiseMode = 1, c_backgroundStrength = 1.0, c_forceFieldStrength = 1.0,
      c_brownianMotion = 1, c_spawnRate = 0.008, c_mouseMode = ''vortex'',
      c_globalGravity = 0, c_particleInteraction = ''zones'', c_interactionStrength = 1.0,
      c_interactionRadius = 50, c_fieldDriftSpeed = 0.5, c_respawnRate = 0.005 \<rparr>"

text \<open>The events that reach the canvas variant, and a run over a list of them.\<close>

datatype event = Frame | Key string | Click real real

fun handle :: "world \<Rightarrow> event \<Rightarrow> world" where
  "handle w Frame = animate w"
| "handle w (Key k) = keydown k w"
| "handle w (Click x y) = click x y w"

definition run :: "world \<Rightarrow> event list \<Rightarrow> world" where
  "run w es = foldl handle w es"

text \<open>
  The events of the WebGL variant: a frame, a click or tap (both call
  \<^verbatim>\<open>addForceField(x, canvas.height - y)\<close>), a direct call of \<^verbatim>\<open>addForceField\<close> with a type,
  and \<^verbatim>\<open>setConfig\<close>.
\<close>

datatype eventGL = FrameGL | ClickGL real real | AddGL real real int | SetGL string real

fun handleGL :: "FlowFieldsGL \<Rightarrow> eventGL \<Rightarrow> FlowFieldsGL" where
  "handleGL s FrameGL = animateGL s"
| "handleGL s (ClickGL x y) = addForceField x (canvas_height s - y) (-1) s"
| "handleGL s (AddGL x y t) = addForceField x y t s"
| "handleGL s (SetGL k v) = setConfig k v s"

definition runGL :: "FlowFieldsGL \<Rightarrow> eventGL list \<Rightarrow> FlowFieldsGL" where
  "runGL s es = foldl handleGL s es"

subsection \<open>Construction of the WebGL instance\<close>

text \<open>The defaults of the constructor, before \<^verbatim>\<open>initialConfig\<close> is spread over them.\<close>

definition defaultConfig :: gl_config where
  "defaultConfig =
    \<lparr> particleCount = 250000, noiseScale = 0.003, speed = 1.0, noiseMode = 1,
      backgroundStrength = 1.0, forceFieldStrength = 1.0, brownianMotion = 1.5,
      respawnRate = 0.002, zonesEnabled = False, zonesStrength = 1.0, globalGravity = 0,
      forceSpawnRate = 0, forceLifetime = 1.0, maxForceRadius = 200, globalSwirl = 0,
      chargeInteraction = 0, chargeRatio = 0.5, gravityInteraction = 0, friction = 0.005,
      time = 0 \<rparr>"

text \<open>
  \<^verbatim>\<open>initializeParticles()\<close> (random distribution): four draws per particle, the padding
  texels stay zero, and both textures receive the same data.
\<close>

definition initial_texels :: "nat \<Rightarrow> nat \<Rightarrow> real \<Rightarrow> real \<Rightarrow> rng \<Rightarrow> nat \<Rightarrow> vec4 list" where
  "initial_texels count n w h r k =
    map (\<lambda>i. if i < count
             then (Math_random r (k + 4 * i) * w, Math_random r (k + 4 * i + 1) * h,
                   (Math_random r (k + 4 * i + 2) - 0.5) * 2,
                   (Math_random r (k + 4 * i + 3) - 0.5) * 2)
             else (0, 0, 0, 0)) [0..<n * n]"

definition new_FlowFieldsGL :: "gl_config \<Rightarrow> real \<Rightarrow> real \<Rightarrow> rng \<Rightarrow> FlowFieldsGL" where
  "new_FlowFieldsGL c w h r =
    (let n = nat \<lceil>sqrt (real (particleCount c))\<rceil>;
         tex = \<lparr> tex_size = n, texels = initial_texels (particleCount c) n w h r 0 \<rparr>
     in \<lparr> configGL = c, forceFieldsGL = [], maxForceFields = 40,
          enabledForceTypes = [True, True, True, True, True],
          mouseGL = \<lparr> gm_x = - 1000, gm_y = - 1000, gm_radius = 150, gm_strength = 1.0, gm_mode = 0 \<rparr>,
          particleTextures = [tex, tex], currentTexture = 0, textureSize = n,
          canvas_width = w, canvas_height = h, pausedGL = False,
          rand = r, drawn = 4 * particleCount c \<rparr>)"

subsection \<open>Predicates and sample inputs used by the properties\<close>

text \<open>
  The ping-pong pair is well formed when there are two textures and \<^verbatim>\<open>currentTexture\<close> names
  one of them (the constructor sets it to 0, \<^verbatim>\<open>update\<close> flips it).
\<close>

definition buffers_ok :: "FlowFieldsGL \<Rightarrow> bool" where
  "buffers_ok s = (length (particleTextures s) = 2 \<and> currentTexture s < 2)"

text \<open>A freshly constructed instance with one particle on an 800 by 600 canvas.\<close>

definition demoGL :: FlowFieldsGL where
  "demoGL = new_FlowFieldsGL (defaultConfig\<lparr>particleCount := 1\<rparr>) 800 600 (\<lambda>k. 1 / 2)"

text \<open>A canvas world with one particle at (100, 100), no force fields and no pointer.\<close>

definition demoParticle :: Particle where
  "demoParticle = \<lparr> p_x = 100, p_y = 100, p_prevX = 100, p_prevY = 100, p_speed = 2,
      p_colorIndex = 0, p_life = 0, p_maxLife = 100, p_velocity = 0, p_hue = 0 \<rparr>"

definition demoWorld :: world where
  "demoWorld =
    \<lparr> cfg = config0\<lparr>c_particleCount := 1\<rparr>, particles = [demoParticle], c_time = 0,
      paused = False, spatialGrid = (\<lambda>key. []),
      mouse = \<lparr> m_x = None, m_y = None, m_radius = 150, m_active = False \<rparr>,
      forceFields = [], showForceFields = True,
      noise = \<lparr> perm = replicate 512 0, gradP = replicate 512 (1, 1, 0) \<rparr>,
      spawnTypeOnClick = ''random'', c_width = 800, c_height = 600,
      c_rand = (\<lambda>k. 1 / 2), c_drawn = 0 \<rparr>"

text \<open>The documented ranges of the two strength multipliers.\<close>

definition strengths_in_range :: "config \<Rightarrow> bool" where
  "strengths_in_range c =
    (0 \<le> c_backgroundStrength c \<and> c_backgroundStrength c \<le> 2
     \<and> 0.2 \<le> c_forceFieldStrength c \<and> c_forceFieldStrength c \<le> 3)"

text \<open>
  A sink field at \<open>(x, 0)\<close> with radius 100, and an instance that holds 40 of them while no
  force type is enabled.
\<close>

definition demoField :: "real \<Rightarrow> gl_field" where
  "demoField x = \<lparr> gf_x = x, gf_y = 0, gf_type = 0, gf_strength = 100, gf_radius = 100,
      gf_rotation = 1, gf_life = 500, gf_vx = 0, gf_vy = 0 \<rparr>"

definition fullGL :: FlowFieldsGL where
  "fullGL = demoGL\<lparr> forceFieldsGL := map (\<lambda>i. demoField (real i)) [0..<40],
                     enabledForceTypes := [False, False, False, False, False] \<rparr>"

text \<open>
  The force-field evaluation as the specification words it: the sum, over every field of
  the set, of the force that field exerts at the point (nothing for a field out of range).
  \<open>field_force\<close> is the force of the field in slot \<open>i\<close>, as the loop body computes it.
\<close>

definition field_force :: "uniforms \<Rightarrow> vec2 \<Rightarrow> nat \<Rightarrow> vec2" where
  "field_force u pos i = ffe_body u pos i (0, 0)"

definition evaluateForceAt_spec :: "uniforms \<Rightarrow> vec2 \<Rightarrow> vec2" where
  "evaluateForceAt_spec u pos =
    foldl (\<lambda>total i. vadd total (field_force u pos i)) (0, 0) [0..<nat (u_forceFieldCount u)]"

text \<open>An instance with 17 sink fields at the origin, each of radius 100.\<close>

definition crowdedGL :: FlowFieldsGL where
  "crowdedGL = demoGL\<lparr>forceFieldsGL := replicate 17 (demoField 0)\<rparr>"

text \<open>
  For the canvas field: the distance from the field to the probe point, the strength
  \<^verbatim>\<open>finalStrength\<close> of \<^verbatim>\<open>getForce\<close>, and the ranges the constructor gives a field
  (a known type, strength from 50, radius from 80, life from 500, a vortex turning one way
  or the other).  Then a field spawned in the WebGL instance at the origin, and a canvas
  sink field built by the constructor.
\<close>

definition probe_dist :: "ForceField \<Rightarrow> real \<Rightarrow> real \<Rightarrow> real" where
  "probe_dist f px py = sqrt ((px - ff_x f) * (px - ff_x f) + (py - ff_y f) * (py - ff_y f))"

definition constructed :: "ForceField \<Rightarrow> bool" where
  "constructed f =
    (ff_type f \<in> set allTypes \<and> 50 \<le> ff_strength f \<and> 80 \<le> ff_radius f \<and> 500 \<le> ff_maxLife f
     \<and> (ff_rotation f = 1 \<or> ff_rotation f = -1 \<or> ff_type f \<noteq> ''vortex''))"



definition finalStrength :: "ForceField \<Rightarrow> real \<Rightarrow> real \<Rightarrow> real" where
  "finalStrength f px py =
     (ff_strength f / 100) * (1 - probe_dist f px py / ff_radius f)
       * (1 + sin (ff_pulsePhase f) * 0.3) * lifeFactor f"



definition gl_mouseDist :: "uniforms \<Rightarrow> vec2 \<Rightarrow> real" where
  "gl_mouseDist u pos = vlength (vsub pos (fst (u_mouse u), fst (snd (u_mouse u))))"





text \<open>
  The position \<^verbatim>\<open>main\<close> reaches before it wraps: the old position plus the new velocity.
\<close>

definition main_moved :: "uniforms \<Rightarrow> vec2 \<Rightarrow> vec2" where
  "main_moved u v_texCoord =
    (let particle = texture_fetch (u_particles u) v_texCoord
     in vadd (fst particle, fst (snd particle)) (main_vel u v_texCoord))"

text \<open>
  A WebGL instance with the single particle \<open>p\<close>, in forces-only mode, with no Brownian
  motion, no respawn, no friction, no force fields and the pointer away.
\<close>

definition quietGL :: "vec4 \<Rightarrow> FlowFieldsGL" where
  "quietGL p =
    \<lparr> configGL = defaultConfig\<lparr> particleCount := 1, noiseMode := 5, brownianMotion := 0,
                                  respawnRate := 0, friction := 0 \<rparr>,
      forceFieldsGL = [], maxForceFields = 40,
      enabledForceTypes = [True, True, True, True, True],
      mouseGL = \<lparr> gm_x = - 1000, gm_y = - 1000, gm_radius = 150, gm_strength = 1.0, gm_mode = 0 \<rparr>,
      particleTextures = [\<lparr> tex_size = Suc 0, texels = [p] \<rparr>, \<lparr> tex_size = Suc 0, texels = [p] \<rparr>],
      currentTexture = 0, textureSize = 1, canvas_width = 800, canvas_height = 600,
      pausedGL = False, rand = (\<lambda>k. 1 / 2), drawn = 0 \<rparr>"

text \<open>
  Two starting points in forces-only mode with no Brownian motion and no respawn: a WebGL
  instance whose particle rests at \<open>(400, 310)\<close> while force fields are spawned at the rate
  60, and a canvas world (spawn rate 0, no interactions) whose particle has reached its
  \<^verbatim>\<open>maxLife\<close>.
\<close>

definition spawningGL :: FlowFieldsGL where
  "spawningGL =
    (quietGL (400, 310, 0, 0))
      \<lparr>configGL := (configGL (quietGL (400, 310, 0, 0)))\<lparr>forceSpawnRate := 60\<rparr>\<rparr>"

definition oldWorld :: world where
  "oldWorld =
    demoWorld\<lparr> cfg := config0\<lparr> c_particleCount := 1, c_noiseMode := 5, c_brownianMotion := 0,
                                  c_respawnRate := 0, c_spawnRate := 0,
                                  c_particleInteraction := ''none'' \<rparr>,
                particles := [demoParticle\<lparr>p_life := 100\<rparr>] \<rparr>"

text \<open>
  The one-step scenario of the classic noise mode, for the invocation of \<^verbatim>\<open>main\<close> on a
  texel and for a canvas world: one particle at \<open>(100, 100)\<close> at rest, no force fields, the
  pointer inactive, no Brownian motion, no respawn, the other options at their defaults
  (no gravity, swirl, zones or sampled interaction), a move of at most 100 and a canvas of
  at least 200 by 200 so that the particle stays inside; in the canvas world the grid is the
  one built from the particle list and the particle is not about to exceed its \<^verbatim>\<open>maxLife\<close>.
\<close>

definition classic_scene :: "uniforms \<Rightarrow> vec2 \<Rightarrow> bool" where
  "classic_scene u tc =
    (u_noiseMode u = 0 \<and> texture_fetch (u_particles u) tc = (100, 100, 0, 0)
     \<and> u_forceFieldCount u = 0
     \<and> fst (u_mouse u) = - 1000 \<and> fst (snd (u_mouse u)) = - 1000 \<and> snd (snd (u_mouse u)) \<le> 1000
     \<and> u_brownianMotion u = 0 \<and> u_respawnRate u = 0
     \<and> u_chargeInteraction u = 0 \<and> u_gravityInteraction u = 0
     \<and> u_globalGravity u = 0 \<and> u_globalSwirl u = 0 \<and> \<not> u_zonesEnabled u
     \<and> \<bar>u_speed u * u_backgroundStrength u\<bar> \<le> 100
     \<and> 200 \<le> fst (u_resolution u) \<and> 200 \<le> snd (u_resolution u))"

definition classic_world :: "world \<Rightarrow> bool" where
  "classic_world w =
    (c_noiseMode (cfg w) = 0 \<and> length (particles w) = 1
     \<and> p_x (particles w ! 0) = 100 \<and> p_y (particles w ! 0) = 100
     \<and> spatialGrid w = buildSpatialGrid (particles w)
     \<and> forceFields w = [] \<and> \<not> m_active (mouse w)
     \<and> c_brownianMotion (cfg w) = 0 \<and> c_globalGravity (cfg w) = 0
     \<and> p_life (particles w ! 0) + 1 \<le> p_maxLife (particles w ! 0)
     \<and> \<bar>p_speed (particles w ! 0) * c_backgroundStrength (cfg w)\<bar> \<le> 100
     \<and> 200 \<le> c_width w \<and> 200 \<le> c_height w)"

text \<open>The scenario as concrete states of the two variants.\<close>

definition classicGL :: FlowFieldsGL where
  "classicGL =
    (quietGL (100, 100, 0, 0))
      \<lparr>configGL := (configGL (quietGL (100, 100, 0, 0)))\<lparr>noiseMode := 0\<rparr>\<rparr>"

definition classicWorld :: world where
  "classicWorld =
    demoWorld\<lparr> cfg := (cfg demoWorld)\<lparr>c_noiseMode := 0, c_brownianMotion := 0\<rparr>,
                spatialGrid := buildSpatialGrid [demoParticle] \<rparr>"

section \<open>Properties\<close>

subsection \<open>Noise modes\<close>

text \<open>
  C9.  In both variants the turbulent fBm mode (noise mode 1) is the sum of four octaves of
  the base noise sample at the point \<open>(x, y)\<close> of noise space: weights 0.5, 0.25, 0.125 and
  0.0625 at the frequencies 1, 2, 4 and 8.  In the shader the point is
  \<^verbatim>\<open>pos * u_noiseScale + time * 0.0001\<close>.
\<close>

theorem fbm_four_octaves:
  "getNoiseValue (u\<lparr>u_noiseMode := 1\<rparr>) pos t =
    (let x = fst pos * u_noiseScale u + t * 0.0001;
         y = snd pos * u_noiseScale u + t * 0.0001
     in 0.5 * snoise (x, y) + 0.25 * snoise (2 * x, 2 * y)
        + 0.125 * snoise (4 * x, 4 * y) + 0.0625 * snoise (8 * x, 8 * y))
  \<and> mode_noiseVal 1 ng nx ny =
     0.5 * noise2D ng nx ny + 0.25 * noise2D ng (2 * nx) (2 * ny)
       + 0.125 * noise2D ng (4 * nx) (4 * ny) + 0.0625 * noise2D ng (8 * nx) (8 * ny)"
proof -
  have comm: "\<And>a::real. a * 2 = 2 * a" "\<And>a::real. a * 4 = 4 * a" "\<And>a::real. a * 8 = 8 * a"
    by simp_all
  show ?thesis
    unfolding getNoiseValue_def mode_noiseVal_def smul_def Let_def
    by (simp add: comm)
qed

subsection \<open>What the force-field update and the frame leave alone\<close>

lemma addForceField_frame:
  "particleTextures (addForceField x y t s) = particleTextures s"
  "currentTexture (addForceField x y t s) = currentTexture s"
  "textureSize (addForceField x y t s) = textureSize s"
  "configGL (addForceField x y t s) = configGL s"
  "mouseGL (addForceField x y t s) = mouseGL s"
  "canvas_width (addForceField x y t s) = canvas_width s"
  "canvas_height (addForceField x y t s) = canvas_height s"
  "maxForceFields (addForceField x y t s) = maxForceFields s"
  "enabledForceTypes (addForceField x y t s) = enabledForceTypes s"
  "pausedGL (addForceField x y t s) = pausedGL s"
  "rand (addForceField x y t s) = rand s"
  "FlowFieldsGL.more (addForceField x y t s) = FlowFieldsGL.more s"
  by (simp_all add: addForceField_def Let_def)

lemma addForceField_cong:
  assumes "forceFieldsGL s = forceFieldsGL s'" "maxForceFields s = maxForceFields s'"
    "enabledForceTypes s = enabledForceTypes s'" "configGL s = configGL s'"
    "rand s = rand s'" "drawn s = drawn s'"
  shows "forceFieldsGL (addForceField x y t s) = forceFieldsGL (addForceField x y t s')"
    and "drawn (addForceField x y t s) = drawn (addForceField x y t s')"
  using assms by (simp_all add: addForceField_def Let_def)

lemma updateForceFields_frame:
  "particleTextures (updateForceFields s) = particleTextures s"
  "currentTexture (updateForceFields s) = currentTexture s"
  "textureSize (updateForceFields s) = textureSize s"
  "configGL (updateForceFields s) = configGL s"
  "mouseGL (updateForceFields s) = mouseGL s"
  "canvas_width (updateForceFields s) = canvas_width s"
  "canvas_height (updateForceFields s) = canvas_height s"
  "maxForceFields (updateForceFields s) = maxForceFields s"
  "enabledForceTypes (updateForceFields s) = enabledForceTypes s"
  "pausedGL (updateForceFields s) = pausedGL s"
  "rand (updateForceFields s) = rand s"
  "FlowFieldsGL.more (updateForceFields s) = FlowFieldsGL.more s"
  by (simp_all add: updateForceFields_def addForceField_frame Let_def)

lemma updateForceFields_cong:
  assumes "forceFieldsGL s = forceFieldsGL s'" "maxForceFields s = maxForceFields s'"
    "enabledForceTypes s = enabledForceTypes s'" "configGL s = configGL s'"
    "rand s = rand s'" "drawn s = drawn s'"
    "canvas_width s = canvas_width s'" "canvas_height s = canvas_height s'"
  shows "forceFieldsGL (updateForceFields s) = forceFieldsGL (updateForceFields s')"
    and "drawn (updateForceFields s) = drawn (updateForceFields s')"
proof -
  have af: "\<And>x y a b. forceFieldsGL (addForceField x y (-1) (s\<lparr>forceFieldsGL := a, drawn := b\<rparr>))
      = forceFieldsGL (addForceField x y (-1) (s'\<lparr>forceFieldsGL := a, drawn := b\<rparr>))"
    "\<And>x y a b. drawn (addForceField x y (-1) (s\<lparr>forceFieldsGL := a, drawn := b\<rparr>))
      = drawn (addForceField x y (-1) (s'\<lparr>forceFieldsGL := a, drawn := b\<rparr>))"
    using assms by (auto intro!: addForceField_cong)
  show "forceFieldsGL (updateForceFields s) = forceFieldsGL (updateForceFields s')"
    using assms by (simp add: updateForceFields_def Let_def af)
  show "drawn (updateForceFields s) = drawn (updateForceFields s')"
    using assms by (simp add: updateForceFields_def Let_def af)
qed


lemma update_sel:
  "particleTextures (update s) =
     (particleTextures s)[1 - currentTexture s :=
        physics_pass (set_uniforms (updateForceFields s) (particleTextures s ! currentTexture s))
          (textureSize s)]"
  "currentTexture (update s) = 1 - currentTexture s"
  "configGL (update s) = (configGL s)\<lparr>time := time (configGL s) + 1\<rparr>"
  "forceFieldsGL (update s) = forceFieldsGL (updateForceFields s)"
  "drawn (update s) = drawn (updateForceFields s)"
  "textureSize (update s) = textureSize s"
  "mouseGL (update s) = mouseGL s"
  "canvas_width (update s) = canvas_width s"
  "canvas_height (update s) = canvas_height s"
  "maxForceFields (update s) = maxForceFields s"
  "enabledForceTypes (update s) = enabledForceTypes s"
  "pausedGL (update s) = pausedGL s"
  "rand (update s) = rand s"
  "FlowFieldsGL.more (update s) = FlowFieldsGL.more s"
  by (simp_all add: update_def Let_def updateForceFields_frame)

lemma uniform_slot_cong:
  "forceFieldsGL s = forceFieldsGL s' \<Longrightarrow> maxForceFields s = maxForceFields s'
     \<Longrightarrow> uniform_slot s = uniform_slot s'"
  by (rule ext) (simp add: uniform_slot_def)

lemma set_uniforms_cong:
  assumes "forceFieldsGL s = forceFieldsGL s'" "maxForceFields s = maxForceFields s'"
    "configGL s = configGL s'" "mouseGL s = mouseGL s'" "textureSize s = textureSize s'"
    "canvas_width s = canvas_width s'" "canvas_height s = canvas_height s'"
  shows "set_uniforms s rt = set_uniforms s' rt"
  using assms uniform_slot_cong[of s s']
  by (simp add: set_uniforms_def getForceFieldUniforms_def)

lemma update_ignores_write_buffer:
  assumes i: "i = 1 - currentTexture s" and ne: "i \<noteq> currentTexture s"
  shows "update (s\<lparr>particleTextures := (particleTextures s)[i := t]\<rparr>) = update s"
proof -
  let ?s' = "s\<lparr>particleTextures := (particleTextures s)[i := t]\<rparr>"
  have ff: "forceFieldsGL (updateForceFields ?s') = forceFieldsGL (updateForceFields s)"
    by (rule updateForceFields_cong(1)) simp_all
  have dr: "drawn (updateForceFields ?s') = drawn (updateForceFields s)"
    by (rule updateForceFields_cong(2)) simp_all
  have su: "\<And>rt. set_uniforms (updateForceFields ?s') rt = set_uniforms (updateForceFields s) rt"
    by (rule set_uniforms_cong) (simp_all add: ff updateForceFields_frame)
  have rd: "(particleTextures s)[i := t] ! currentTexture s = particleTextures s ! currentTexture s"
    using ne by simp
  have pt: "particleTextures (update ?s') = particleTextures (update s)"
    using i ne su by (simp add: update_sel)
  show ?thesis
    by (rule FlowFieldsGL.equality) (simp_all add: pt, simp_all add: update_sel ff dr)
qed

text \<open>
  The ping-pong pair is well formed in a constructed instance and stays so under every
  event, hence at any time of a run.
\<close>

lemma new_FlowFieldsGL_buffers_ok: "buffers_ok (new_FlowFieldsGL c w h r)"
  by (simp add: buffers_ok_def new_FlowFieldsGL_def Let_def)

lemma handleGL_buffers_ok: "buffers_ok s \<Longrightarrow> buffers_ok (handleGL s e)"
proof (cases e)
  case FrameGL
  assume "buffers_ok s"
  then have "length (particleTextures s) = 2" "1 - currentTexture s < 2"
    by (simp_all add: buffers_ok_def)
  then have "buffers_ok (update s)" by (simp add: buffers_ok_def update_sel)
  with \<open>buffers_ok s\<close> FrameGL show ?thesis by (simp add: animateGL_def)
next
  case (ClickGL x y)
  assume "buffers_ok s"
  with ClickGL show ?thesis by (simp add: buffers_ok_def addForceField_frame)
next
  case (AddGL x y t)
  assume "buffers_ok s"
  with AddGL show ?thesis by (simp add: buffers_ok_def addForceField_frame)
next
  case (SetGL k v)
  assume "buffers_ok s"
  with SetGL show ?thesis by (simp add: buffers_ok_def setConfig_def)
qed

lemma runGL_buffers_ok: "buffers_ok s \<Longrightarrow> buffers_ok (runGL s es)"
  unfolding runGL_def
  by (induction es arbitrary: s) (simp_all add: handleGL_buffers_ok)

text \<open>
  C3.  Double buffering.  In a well-formed instance \<^verbatim>\<open>update\<close> flips \<^verbatim>\<open>currentTexture\<close>
  between the two textures; the texture it read (the current one before the call) is left
  as it was; the other texture receives the physics pass computed from the texture read;
  the old content of the texture written has no influence on the result of the step; and
  \<^verbatim>\<open>render\<close> afterwards reads the texture just written, which is the new current one.
\<close>

theorem double_buffering:
  "buffers_ok s \<Longrightarrow>
     buffers_ok (update s)
   \<and> currentTexture (update s) = 1 - currentTexture s
   \<and> currentTexture (update s) \<noteq> currentTexture s
   \<and> particleTextures (update s) ! currentTexture s = particleTextures s ! currentTexture s
   \<and> particleTextures (update s) ! (1 - currentTexture s) =
        physics_pass (set_uniforms (updateForceFields s) (particleTextures s ! currentTexture s))
          (textureSize s)
   \<and> update (s\<lparr>particleTextures := (particleTextures s)[1 - currentTexture s := t]\<rparr>) = update s
   \<and> render_source (update s) = particleTextures (update s) ! (1 - currentTexture s)"
proof -
  assume ok: "buffers_ok s"
  then have len: "length (particleTextures s) = 2" and cur: "currentTexture s < 2"
    by (simp_all add: buffers_ok_def)
  from cur have ne: "1 - currentTexture s \<noteq> currentTexture s" and lt: "1 - currentTexture s < 2"
    by arith+
  have a: "buffers_ok (update s)"
    using len lt by (simp add: buffers_ok_def update_sel)
  have c: "particleTextures (update s) ! currentTexture s = particleTextures s ! currentTexture s"
    using ne by (simp add: update_sel)
  have d: "particleTextures (update s) ! (1 - currentTexture s) =
        physics_pass (set_uniforms (updateForceFields s) (particleTextures s ! currentTexture s))
          (textureSize s)"
    using len lt by (simp add: update_sel)
  have f: "render_source (update s) = particleTextures (update s) ! (1 - currentTexture s)"
    by (simp add: render_source_def update_sel)
  from a c d f ne update_ignores_write_buffer[OF refl ne] show ?thesis
    by (simp add: update_sel)
qed

theorem double_buffering_witness:
  "buffers_ok demoGL
   \<and> currentTexture (update demoGL) = 1
   \<and> particleTextures (update demoGL) ! 0 = particleTextures demoGL ! 0
   \<and> render_source (update demoGL) = particleTextures (update demoGL) ! 1"
proof -
  have ok: "buffers_ok demoGL"
    by (simp add: buffers_ok_def demoGL_def new_FlowFieldsGL_def Let_def)
  have cur: "currentTexture demoGL = 0"
    by (simp add: demoGL_def new_FlowFieldsGL_def Let_def)
  show ?thesis using double_buffering [OF ok] ok cur by simp
qed

subsection \<open>Configuration adjustments\<close>

lemma spawnForceField_cfg: "cfg (spawnForceField t w) = cfg w"
  by (simp add: spawnForceField_def split: prod.splits)

lemma keydown_bg:
  "c_backgroundStrength (cfg (keydown k w)) =
    (if k = ''['' then max 0 (c_backgroundStrength (cfg w) - 0.2)
     else if k = '']'' then min 2 (c_backgroundStrength (cfg w) + 0.2)
     else c_backgroundStrength (cfg w))"
  by (simp add: keydown_def spawnForceField_cfg clearForceFields_def cycleColorScheme_def Let_def)

lemma keydown_ffs:
  "c_forceFieldStrength (cfg (keydown k w)) =
    (if k = ''-'' then max 0.2 (c_forceFieldStrength (cfg w) - 0.2)
     else if k = ''='' then min 3 (c_forceFieldStrength (cfg w) + 0.2)
     else c_forceFieldStrength (cfg w))"
  by (simp add: keydown_def spawnForceField_cfg clearForceFields_def cycleColorScheme_def Let_def)

lemma keydown_strengths:
  "strengths_in_range (cfg w) \<Longrightarrow> strengths_in_range (cfg (keydown k w))"
  unfolding strengths_in_range_def keydown_bg keydown_ffs
  by (auto simp: min_def max_def)

lemma click_cfg: "cfg (click x y w) = cfg w"
  by (simp add: click_def Let_def split: prod.splits)

lemma Particle_update_cfg: "cfg (Particle_update w i) = cfg w"
  by (simp add: Particle_update_def Let_def)

lemma foldl_Particle_update_cfg: "cfg (foldl Particle_update w is) = cfg w"
  by (induction "is" arbitrary: w) (simp_all add: Particle_update_cfg)

lemma respawn_old_cfg: "cfg (respawn_old n w) = cfg w"
  by (induction n arbitrary: w) (simp_all add: Let_def)

lemma respawn_any_cfg: "cfg (respawn_any n w) = cfg w"
  by (induction n arbitrary: w) (simp_all add: Let_def)

lemma animate_cfg: "cfg (animate w) = cfg w"
  by (simp add: animate_def Let_def foldl_Particle_update_cfg respawn_old_cfg respawn_any_cfg
      spawnForceField_cfg)

lemma handle_strengths:
  "strengths_in_range (cfg w) \<Longrightarrow> strengths_in_range (cfg (handle w e))"
  by (cases e) (simp_all add: animate_cfg click_cfg keydown_strengths)

lemma run_strengths:
  "strengths_in_range (cfg w) \<Longrightarrow> strengths_in_range (cfg (run w es))"
  unfolding run_def
  by (induction es arbitrary: w) (simp_all add: handle_strengths)

text \<open>
  C8.  The claim that every configuration-mutating operation clamps fails for
  \<^verbatim>\<open>setConfig\<close> of the WebGL variant: it stores 5 as the background strength.
\<close>

theorem setConfig_counterexample:
  "\<not> (0 \<le> backgroundStrength (configGL (setConfig ''backgroundStrength'' 5 demoGL))
      \<and> backgroundStrength (configGL (setConfig ''backgroundStrength'' 5 demoGL)) \<le> 2)"
  by (simp add: setConfig_def)

text \<open>
  C8, as amended.  In the canvas variant the two strengths, once inside their ranges
  \<open>[0, 2]\<close> and \<open>[0.2, 3]\<close>, stay inside them over any sequence of events (frames, keys,
  clicks); each of the four adjustment keys moves its value by 0.2 and clamps it at the
  bound it moves towards.  In the WebGL variant \<^verbatim>\<open>setConfig\<close> stores the given value as it
  is.  Every operation is a total function: none of them fails.
\<close>

theorem clamped_adjustments:
  "(strengths_in_range (cfg w) \<longrightarrow> strengths_in_range (cfg (run w es)))
   \<and> c_backgroundStrength (cfg (keydown ''['' w)) = max 0 (c_backgroundStrength (cfg w) - 0.2)
   \<and> c_backgroundStrength (cfg (keydown '']'' w)) = min 2 (c_backgroundStrength (cfg w) + 0.2)
   \<and> c_forceFieldStrength (cfg (keydown ''-'' w)) = max 0.2 (c_forceFieldStrength (cfg w) - 0.2)
   \<and> c_forceFieldStrength (cfg (keydown ''='' w)) = min 3 (c_forceFieldStrength (cfg w) + 0.2)
   \<and> backgroundStrength (configGL (setConfig ''backgroundStrength'' v s)) = v
   \<and> forceFieldStrength (configGL (setConfig ''forceFieldStrength'' v s)) = v"
  by (simp add: run_strengths setConfig_def keydown_def)

theorem clamped_adjustments_witness:
  "strengths_in_range (cfg demoWorld)
   \<and> strengths_in_range (cfg (run demoWorld [Key '']'', Key '']'', Key '']'', Key '']'', Key '']'', Key '']'', Key ''-'']))
   \<and> c_backgroundStrength (cfg (run demoWorld [Key '']'', Key '']'', Key '']'', Key '']'', Key '']'', Key '']''])) = 2"
proof -
  have h: "strengths_in_range (cfg demoWorld)"
    by (simp add: strengths_in_range_def demoWorld_def config0_def)
  have v: "c_backgroundStrength (cfg (run demoWorld [Key '']'', Key '']'', Key '']'', Key '']'', Key '']'', Key '']''])) = 2"
    by (simp add: run_def keydown_def demoWorld_def config0_def)
  from h v clamped_adjustments [of demoWorld "[Key '']'', Key '']'', Key '']'', Key '']'', Key '']'', Key '']'', Key ''-'']"]
  show ?thesis by simp
qed


subsection \<open>Capacity of the force-field set\<close>

lemma upt5: "[0..<5] = [0, 1, 2, 3, 4]"
  by (simp add: upt_rec)

lemma uff_loop_length: "n \<le> length fs \<Longrightarrow> length (uff_loop w h n fs) \<le> length fs"
proof (induction n arbitrary: fs)
  case 0
  then show ?case by simp
next
  case (Suc n)
  show ?case
  proof (cases "gf_life (field_step w h (fs ! n)) \<le> 0")
    case True
    have "length (uff_loop w h n (take n fs @ drop (Suc n) fs)) \<le> length (take n fs @ drop (Suc n) fs)"
      using Suc.prems by (intro Suc.IH) simp
    with True Suc.prems show ?thesis by (simp add: Let_def)
  next
    case False
    have "length (uff_loop w h n (fs[n := field_step w h (fs ! n)])) \<le> length (fs[n := field_step w h (fs ! n)])"
      using Suc.prems by (intro Suc.IH) simp
    with False show ?thesis by (simp add: Let_def)
  qed
qed

lemma addForceField_length:
  assumes "0 < maxForceFields s" "length (forceFieldsGL s) \<le> maxForceFields s"
  shows "length (forceFieldsGL (addForceField x y t s)) \<le> maxForceFields s"
proof -
  let ?fs = "if length (forceFieldsGL s) \<ge> maxForceFields s then tl (forceFieldsGL s) else forceFieldsGL s"
  have "Suc (length ?fs) \<le> maxForceFields s"
    using assms by (cases "forceFieldsGL s") auto
  then show ?thesis
    by (simp add: addForceField_def Let_def)
qed

lemma addForceField_max: "maxForceFields (addForceField x y t s) = maxForceFields s"
  by (simp add: addForceField_def Let_def)

lemma updateForceFields_length:
  assumes "0 < maxForceFields s" "length (forceFieldsGL s) \<le> maxForceFields s"
  shows "length (forceFieldsGL (updateForceFields s)) \<le> maxForceFields s"
proof -
  let ?fs = "uff_loop (canvas_width s) (canvas_height s) (length (forceFieldsGL s)) (forceFieldsGL s)"
  have len: "length ?fs \<le> maxForceFields s"
    using uff_loop_length[of "length (forceFieldsGL s)" "forceFieldsGL s"] assms(2) by (meson le_refl le_trans)
  have "\<And>x y k. length (forceFieldsGL (addForceField x y (-1) (s\<lparr>forceFieldsGL := ?fs, drawn := k\<rparr>))) \<le> maxForceFields s"
    using addForceField_length[of "s\<lparr>forceFieldsGL := ?fs, drawn := _\<rparr>"] assms(1) len by simp
  with len show ?thesis
    by (simp add: updateForceFields_def Let_def)
qed

lemma setConfig_fields:
  "forceFieldsGL (setConfig k v s) = forceFieldsGL s"
  "maxForceFields (setConfig k v s) = maxForceFields s"
  by (simp_all add: setConfig_def)

lemma update_length:
  assumes "0 < maxForceFields s" "length (forceFieldsGL s) \<le> maxForceFields s"
  shows "length (forceFieldsGL (update s)) \<le> maxForceFields s"
  using updateForceFields_length[OF assms] by (simp add: update_def Let_def)

lemma updateForceFields_max: "maxForceFields (updateForceFields s) = maxForceFields s"
  by (simp add: updateForceFields_def addForceField_max Let_def)

lemma handleGL_capacity:
  assumes "0 < maxForceFields s" "length (forceFieldsGL s) \<le> maxForceFields s"
  shows "length (forceFieldsGL (handleGL s e)) \<le> maxForceFields s
         \<and> maxForceFields (handleGL s e) = maxForceFields s"
proof (cases e)
  case FrameGL
  then show ?thesis
    using update_length[OF assms] assms
    by (simp add: animateGL_def update_def Let_def updateForceFields_max)
next
  case (ClickGL x y)
  then show ?thesis using addForceField_length[OF assms] by (simp add: addForceField_max)
next
  case (AddGL x y t)
  then show ?thesis using addForceField_length[OF assms] by (simp add: addForceField_max)
next
  case (SetGL k v)
  then show ?thesis using assms by (simp add: setConfig_fields)
qed

lemma runGL_capacity:
  "0 < maxForceFields s \<Longrightarrow> length (forceFieldsGL s) \<le> maxForceFields s
   \<Longrightarrow> length (forceFieldsGL (runGL s es)) \<le> maxForceFields s"
proof (induction es arbitrary: s)
  case Nil
  then show ?case by (simp add: runGL_def)
next
  case (Cons e es)
  have h: "length (forceFieldsGL (handleGL s e)) \<le> maxForceFields s"
    "maxForceFields (handleGL s e) = maxForceFields s"
    using handleGL_capacity[OF Cons.prems] by simp_all
  have "length (forceFieldsGL (runGL (handleGL s e) es)) \<le> maxForceFields (handleGL s e)"
    by (rule Cons.IH) (use h Cons.prems in simp_all)
  then show ?case by (simp add: runGL_def h)
qed

lemma addForceField_evicts_then_inserts:
  assumes "length (forceFieldsGL s) = maxForceFields s"
    and "0 \<le> t \<or> (\<exists>i<5. enabledForceTypes s ! i)"
  shows "\<exists>f. forceFieldsGL (addForceField x y t s) = tl (forceFieldsGL s) @ [f] \<and> gf_x f = x \<and> gf_y f = y"
proof -
  have "t < 0 \<Longrightarrow> filter (\<lambda>i. enabledForceTypes s ! i) [0..<5] \<noteq> []"
    using assms(2) by (auto simp: filter_empty_conv)
  then show ?thesis
    using assms(1) by (simp add: addForceField_def Let_def)
qed

lemma spawnForceField_at_capacity: "15 \<le> length (forceFields w) \<Longrightarrow> spawnForceField t w = w"
  by (simp add: spawnForceField_def)

lemma spawnForceField_length:
  "length (forceFields w) \<le> 15 \<Longrightarrow> length (forceFields (spawnForceField t w)) \<le> 15"
  by (simp add: spawnForceField_def split: prod.splits)

lemma click_length:
  "length (forceFields w) \<le> 15 \<Longrightarrow> length (forceFields (click x y w)) \<le> 15"
  by (simp add: click_def Let_def split: prod.splits)

lemma Particle_update_fields: "forceFields (Particle_update w i) = forceFields w"
  by (simp add: Particle_update_def Let_def)

lemma foldl_Particle_update_fields: "forceFields (foldl Particle_update w is) = forceFields w"
  by (induction "is" arbitrary: w) (simp_all add: Particle_update_fields)

lemma respawn_old_fields: "forceFields (respawn_old n w) = forceFields w"
  by (induction n arbitrary: w) (simp_all add: Let_def)

lemma respawn_any_fields: "forceFields (respawn_any n w) = forceFields w"
  by (induction n arbitrary: w) (simp_all add: Let_def)

lemma animate_length:
  assumes "length (forceFields w) \<le> 15"
  shows "length (forceFields (animate w)) \<le> 15"
proof -
  have a: "\<And>k. length (filter (\<lambda>f. \<not> isDead f) (forceFields (w\<lparr>c_drawn := k\<rparr>))) \<le> 15"
    using assms by (simp add: le_trans[OF length_filter_le])
  have b: "\<And>k. length (filter (\<lambda>f. \<not> isDead f) (forceFields (spawnForceField None (w\<lparr>c_drawn := k\<rparr>)))) \<le> 15"
    using spawnForceField_length[of "w\<lparr>c_drawn := _\<rparr>" None] assms
    by (simp add: le_trans[OF length_filter_le])
  show ?thesis
    using assms a b
    by (simp add: animate_def Let_def foldl_Particle_update_fields respawn_old_fields
        respawn_any_fields)
qed

lemma keydown_length:
  "length (forceFields w) \<le> 15 \<Longrightarrow> length (forceFields (keydown k w)) \<le> 15"
  by (simp add: keydown_def spawnForceField_length clearForceFields_def cycleColorScheme_def Let_def)

lemma run_capacity:
  "length (forceFields w) \<le> 15 \<Longrightarrow> length (forceFields (run w es)) \<le> 15"
proof (induction es arbitrary: w)
  case Nil
  then show ?case by (simp add: run_def)
next
  case (Cons e es)
  have "length (forceFields (handle w e)) \<le> 15"
    using Cons.prems by (cases e) (simp_all add: animate_length keydown_length click_length)
  then have "length (forceFields (run (handle w e) es)) \<le> 15"
    by (rule Cons.IH)
  then show ?case by (simp add: run_def)
qed

text \<open>
  C7.  The set never grows beyond its cap (\<open>runGL_capacity\<close>, \<open>run_capacity\<close>), and at the
  cap \<^verbatim>\<open>addForceField\<close> evicts the oldest field and appends the new one whenever it has a
  type to give it (\<open>addForceField_evicts_then_inserts\<close>), while \<^verbatim>\<open>spawnForceField\<close> does
  nothing (\<open>spawnForceField_at_capacity\<close>).  But when the random type is asked for and no type
  is enabled, \<^verbatim>\<open>addForceField\<close> returns after the eviction: a click on a full set then
  removes the oldest field and adds none.
\<close>

theorem addForceField_at_capacity_without_types:
  "int (length (forceFieldsGL fullGL)) = 40
   \<and> maxForceFields fullGL = 40
   \<and> forceFieldsGL (handleGL fullGL (ClickGL 10 10)) = tl (forceFieldsGL fullGL)
   \<and> int (length (forceFieldsGL (handleGL fullGL (ClickGL 10 10)))) = 39"
  by (simp add: fullGL_def demoGL_def new_FlowFieldsGL_def addForceField_def upt5 Let_def)

subsection \<open>The force-field sum of the shader\<close>

lemma vadd_zero [simp]: "vadd t (0, 0) = t" "vadd (0, 0) t = t"
  by (simp_all add: vadd_def)

lemma ffe_body_add: "ffe_body u pos i t = vadd t (field_force u pos i)"
  unfolding field_force_def ffe_body_def Let_def
  by (simp add: vadd_def vsub_def)

lemma ffe_loop_sum:
  "ffe_loop u pos i t =
     foldl (\<lambda>total i. vadd total (field_force u pos i)) t [i..<min 16 (nat (u_forceFieldCount u))]"
proof (induction u pos i t rule: ffe_loop.induct)
  case (1 u pos i t)
  show ?case
  proof (cases "i < 16 \<and> \<not> int i \<ge> u_forceFieldCount u")
    case True
    then have lt: "i < min 16 (nat (u_forceFieldCount u))" by linarith
    have "ffe_loop u pos i t = ffe_loop u pos (i + 1) (ffe_body u pos i t)"
      using True by (subst ffe_loop.simps) simp
    also have "\<dots> = foldl (\<lambda>total i. vadd total (field_force u pos i)) (ffe_body u pos i t)
        [i + 1..<min 16 (nat (u_forceFieldCount u))]"
      using True by (intro "1.IH") simp_all
    also have "\<dots> = foldl (\<lambda>total i. vadd total (field_force u pos i)) t
        [i..<min 16 (nat (u_forceFieldCount u))]"
      using lt by (simp add: upt_conv_Cons ffe_body_add)
    finally show ?thesis .
  next
    case False
    then have "min 16 (nat (u_forceFieldCount u)) \<le> i" by auto
    moreover have "ffe_loop u pos i t = t"
      using False by (subst ffe_loop.simps) auto
    ultimately show ?thesis by simp
  qed
qed

lemma getForceFieldEffect_first_16:
  "getForceFieldEffect u pos =
     foldl (\<lambda>total i. vadd total (field_force u pos i)) (0, 0) [0..<min 16 (nat (u_forceFieldCount u))]"
  by (simp add: getForceFieldEffect_def ffe_loop_sum)

lemma getForceFieldEffect_complete_up_to_16:
  "u_forceFieldCount u \<le> 16 \<Longrightarrow> getForceFieldEffect u pos = evaluateForceAt_spec u pos"
proof -
  assume "u_forceFieldCount u \<le> 16"
  then have "min 16 (nat (u_forceFieldCount u)) = nat (u_forceFieldCount u)" by linarith
  then show ?thesis
    by (simp add: getForceFieldEffect_first_16 evaluateForceAt_spec_def)
qed


lemma nth_concat_slots:
  "(\<And>x. length (f x) = n) \<Longrightarrow> i < length xs \<Longrightarrow> j < n
    \<Longrightarrow> concat (map f xs) ! (i * n + j) = f (xs ! i) ! j"
proof (induction xs arbitrary: i)
  case Nil
  then show ?case by simp
next
  case (Cons x xs)
  show ?case
  proof (cases i)
    case 0
    then show ?thesis using Cons.prems by (simp add: nth_append)
  next
    case (Suc k)
    have "Suc k * n + j = length (f x) + (k * n + j)" using Cons.prems(1) by simp
    then have "concat (map f (x # xs)) ! (i * n + j) = concat (map f xs) ! (k * n + j)"
      using Suc by (simp add: nth_append)
    also have "\<dots> = f (xs ! k) ! j"
      using Cons.prems Suc by (intro Cons.IH) simp_all
    finally show ?thesis using Suc by simp
  qed
qed

lemma uniform_slot_length: "length (uniform_slot s i) = 8"
  by (simp add: uniform_slot_def Let_def)

lemma uniforms_nth:
  "i < 40 \<Longrightarrow> j < 8 \<Longrightarrow> getForceFieldUniforms s ! (i * 8 + j) = uniform_slot s i ! j"
  unfolding getForceFieldUniforms_def
  using nth_concat_slots[of "uniform_slot s" 8 i "[0..<40]" j]
  by (simp add: uniform_slot_length)

lemma sqrt_100: "sqrt 100 = 10"
  by (rule real_sqrt_unique) simp_all

lemma crowded_slot:
  "i < 17 \<Longrightarrow> uniform_slot crowdedGL i = [0, 0, 0, 100, 100, 1, 1, 1]"
  by (simp add: uniform_slot_def crowdedGL_def demoGL_def new_FlowFieldsGL_def demoField_def Let_def)

lemma crowded_force:
  assumes "i < 17"
  shows "field_force (set_uniforms crowdedGL rt) (10, 0) i = (- 0.9, 0)"
proof -
  have i40: "i < 40" using assms by simp
  have rd: "\<And>j. j < 8 \<Longrightarrow> u_forceFields (set_uniforms crowdedGL rt) ! (i * 8 + j)
        = [0, 0, 0, 100, 100, 1, 1, 1::real] ! j"
    using uniforms_nth[OF i40, of _ crowdedGL] crowded_slot[OF assms]
    by (simp add: set_uniforms_def)
  have r: "u_forceFields (set_uniforms crowdedGL rt) ! (i * 8) = 0"
    "u_forceFields (set_uniforms crowdedGL rt) ! (i * 8 + 1) = 0"
    "u_forceFields (set_uniforms crowdedGL rt) ! (i * 8 + 2) = 0"
    "u_forceFields (set_uniforms crowdedGL rt) ! (i * 8 + 3) = 100"
    "u_forceFields (set_uniforms crowdedGL rt) ! (i * 8 + 4) = 100"
    "u_forceFields (set_uniforms crowdedGL rt) ! (i * 8 + 5) = 1"
    "u_forceFields (set_uniforms crowdedGL rt) ! (i * 8 + 6) = 1"
    "u_forceFields (set_uniforms crowdedGL rt) ! (i * 8 + 7) = 1"
    using rd[of 0] rd[of 1] rd[of 2] rd[of 3] rd[of 4] rd[of 5] rd[of 6] rd[of 7]
    by simp_all
  show ?thesis
    unfolding field_force_def ffe_body_def Let_def r
    by (simp add: vsub_def vadd_def smul_def sdiv_def normalize_def vlength_def sqrt_100)
qed

lemma foldl_constant_force:
  "(\<And>i. i < n \<Longrightarrow> g i = c) \<Longrightarrow>
     foldl (\<lambda>total i. vadd total (g i)) t [0..<n] = vadd t (smul c (real n))"
proof (induction n)
  case 0
  then show ?case by (simp add: vadd_def smul_def)
next
  case (Suc n)
  then show ?case by (simp add: vadd_def smul_def algebra_simps)
qed

text \<open>
  C1.  The shader loop stops after 16 slots (\<open>getForceFieldEffect_first_16\<close>), so it returns
  the full sum only for sets of at most 16 fields (\<open>getForceFieldEffect_complete_up_to_16\<close>),
  while the set may hold 40.  With 17 sink fields in range of the point \<open>(10, 0)\<close>, each
  pulling with \<open>0.9\<close>, the shader returns \<open>16 * 0.9\<close> where the sum over the set is
  \<open>17 * 0.9\<close>.
\<close>

theorem shader_sums_only_16_fields:
  "u_forceFieldCount (set_uniforms crowdedGL (particleTextures crowdedGL ! 0)) = 17
   \<and> getForceFieldEffect (set_uniforms crowdedGL (particleTextures crowdedGL ! 0)) (10, 0)
       = (- 14.4, 0)
   \<and> evaluateForceAt_spec (set_uniforms crowdedGL (particleTextures crowdedGL ! 0)) (10, 0)
       = (- 15.3, 0)"
proof -
  let ?u = "set_uniforms crowdedGL (particleTextures crowdedGL ! 0)"
  have cnt: "u_forceFieldCount ?u = 17"
    by (simp add: set_uniforms_def crowdedGL_def)
  have m: "min 16 (nat (17::int)) = (16::nat)" "nat (17::int) = (17::nat)"
    "min 16 (17::nat) = 16"
    by simp_all
  have a: "getForceFieldEffect ?u (10, 0) = vadd (0, 0) (smul (- 0.9, 0) (real (16::nat)))"
    unfolding getForceFieldEffect_first_16 cnt m
    by (rule foldl_constant_force) (simp add: crowded_force)
  have b: "evaluateForceAt_spec ?u (10, 0) = vadd (0, 0) (smul (- 0.9, 0) (real (17::nat)))"
    unfolding evaluateForceAt_spec_def cnt m
    by (rule foldl_constant_force) (simp add: crowded_force)
  from cnt a b show ?thesis by (simp add: smul_def)
qed

subsection \<open>The fade of a force field\<close>






lemma unit_dir_nonzero:
  assumes "0 < sqrt (dx * dx + dy * dy)"
  shows "dx \<noteq> 0 \<or> dy \<noteq> (0::real)"
  using assms by auto






lemma fract_bounds: "0 \<le> fract x" "fract x < 1"
  by (simp_all add: fract_def floorf_def) linarith+

lemma Math_random_bounds: "0 \<le> Math_random r k" "Math_random r k < 1"
  by (simp_all add: Math_random_def fract_bounds)

lemma random_index: "0 < n \<Longrightarrow> nat \<lfloor>Math_random r k * real n\<rfloor> < n"
proof -
  assume n: "0 < n"
  have "Math_random r k * real n < real n"
    using Math_random_bounds(2)[of r k] n by simp
  then have "\<lfloor>Math_random r k * real n\<rfloor> < int n" by (simp add: floor_less_iff)
  then show ?thesis using n by linarith
qed

lemma new_ForceField_constructed:
  assumes "t = None \<or> (\<exists>ty. t = Some ty \<and> ty \<in> set allTypes)"
  shows "constructed (fst (new_ForceField t c w h r k))"
proof -
  have nonempty: "\<And>ty. ty \<in> set allTypes \<Longrightarrow> ty \<noteq> []"
    by (auto simp: allTypes_def)
  have pick: "allTypes ! nat \<lfloor>Math_random r (k + 5) * real (length allTypes)\<rfloor> \<in> set allTypes"
    by (rule nth_mem, rule random_index) (simp add: allTypes_def)
  have ty: "ff_type (fst (new_ForceField t c w h r k)) \<in> set allTypes"
    using assms pick nonempty by (auto simp: new_ForceField_def Let_def)
  have b: "\<And>j. 0 \<le> Math_random r j * 100" "\<And>j. 0 \<le> Math_random r j * 120"
    "\<And>j. 0 \<le> Math_random r j * 1000"
    using Math_random_bounds(1)[of r] by simp_all
  have rest: "50 \<le> ff_strength (fst (new_ForceField t c w h r k))"
    "80 \<le> ff_radius (fst (new_ForceField t c w h r k))"
    "500 \<le> ff_maxLife (fst (new_ForceField t c w h r k))"
    "ff_rotation (fst (new_ForceField t c w h r k)) = 1 \<or> ff_rotation (fst (new_ForceField t c w h r k)) = -1
      \<or> ff_type (fst (new_ForceField t c w h r k)) \<noteq> ''vortex''"
    using b by (simp_all add: new_ForceField_def Let_def)
  from ty rest show ?thesis by (simp add: constructed_def)
qed

lemma slot_reads:
  assumes "i < length (forceFieldsGL s)" "i < min (maxForceFields s) 40"
  shows "u_forceFields (set_uniforms s rt) ! (i * 8) = gf_x (forceFieldsGL s ! i)"
    "u_forceFields (set_uniforms s rt) ! (i * 8 + 1) = gf_y (forceFieldsGL s ! i)"
    "u_forceFields (set_uniforms s rt) ! (i * 8 + 2) = real_of_int (gf_type (forceFieldsGL s ! i))"
    "u_forceFields (set_uniforms s rt) ! (i * 8 + 3) = gf_strength (forceFieldsGL s ! i)"
    "u_forceFields (set_uniforms s rt) ! (i * 8 + 4) = gf_radius (forceFieldsGL s ! i)"
    "u_forceFields (set_uniforms s rt) ! (i * 8 + 5) = gf_rotation (forceFieldsGL s ! i)"
    "u_forceFields (set_uniforms s rt) ! (i * 8 + 6) = gf_life (forceFieldsGL s ! i) / 500"
    "u_forceFields (set_uniforms s rt) ! (i * 8 + 7) = 1"
proof -
  have i40: "i < 40" using assms(2) by simp
  have slot: "uniform_slot s i = (let f = forceFieldsGL s ! i
           in [gf_x f, gf_y f, real_of_int (gf_type f), gf_strength f, gf_radius f,
               gf_rotation f, gf_life f / 500, 1])"
    using assms by (simp add: uniform_slot_def)
  have rd: "\<And>j. j < 8 \<Longrightarrow> u_forceFields (set_uniforms s rt) ! (i * 8 + j) = uniform_slot s i ! j"
    using uniforms_nth[OF i40] by (simp add: set_uniforms_def)
  show "u_forceFields (set_uniforms s rt) ! (i * 8) = gf_x (forceFieldsGL s ! i)"
    "u_forceFields (set_uniforms s rt) ! (i * 8 + 1) = gf_y (forceFieldsGL s ! i)"
    "u_forceFields (set_uniforms s rt) ! (i * 8 + 2) = real_of_int (gf_type (forceFieldsGL s ! i))"
    "u_forceFields (set_uniforms s rt) ! (i * 8 + 3) = gf_strength (forceFieldsGL s ! i)"
    "u_forceFields (set_uniforms s rt) ! (i * 8 + 4) = gf_radius (forceFieldsGL s ! i)"
    "u_forceFields (set_uniforms s rt) ! (i * 8 + 5) = gf_rotation (forceFieldsGL s ! i)"
    "u_forceFields (set_uniforms s rt) ! (i * 8 + 6) = gf_life (forceFieldsGL s ! i) / 500"
    "u_forceFields (set_uniforms s rt) ! (i * 8 + 7) = 1"
    using rd[of 0] rd[of 1] rd[of 2] rd[of 3] rd[of 4] rd[of 5] rd[of 6] rd[of 7]
    by (simp_all add: slot Let_def)
qed




lemma half_random: "Math_random (\<lambda>k. 1 / 2) j = 1 / 2"
  by (simp add: Math_random_def fract_def floorf_def)






subsection \<open>The mouse force\<close>

lemma main_mouseForce_outside:
  "gl_mouseDist u pos \<le> 5 \<or> gl_mouseDist u pos \<ge> snd (snd (u_mouse u))
    \<Longrightarrow> main_mouseForce u pos = (0, 0)"
  by (auto simp: main_mouseForce_def gl_mouseDist_def Let_def)


lemma sentinel_far:
  assumes "0 \<le> fst pos" "0 \<le> snd pos"
  shows "1000 \<le> vlength (vsub pos (- 1000, - 1000))"
proof -
  have a: "(1000::real) * 1000 \<le> (fst pos + 1000) * (fst pos + 1000)"
    using assms(1) by (intro mult_mono) simp_all
  have b: "0 \<le> (snd pos + 1000) * (snd pos + 1000)" by simp
  have "(1000::real) * 1000 \<le> (fst pos + 1000) * (fst pos + 1000) + (snd pos + 1000) * (snd pos + 1000)"
    using a b by linarith
  then have "sqrt ((1000::real) * 1000) \<le> sqrt ((fst pos + 1000) * (fst pos + 1000) + (snd pos + 1000) * (snd pos + 1000))"
    by (rule real_sqrt_le_mono)
  moreover have "sqrt ((1000::real) * 1000) = 1000" by (rule real_sqrt_unique) simp_all
  ultimately show ?thesis by (simp add: vlength_def vsub_def)
qed






subsection \<open>Positions after a step\<close>

lemma random_bounds: "0 \<le> random st" "random st < 1"
  by (simp_all add: random_def Let_def fract_bounds)

lemma getForceFieldEffect_empty:
  "u_forceFieldCount u \<le> 0 \<Longrightarrow> getForceFieldEffect u pos = (0, 0)"
  by (simp add: getForceFieldEffect_first_16)

lemma smul_zero [simp]: "smul v 0 = (0, 0)" "smul (0, 0) k = (0, 0)"
  by (simp_all add: smul_def)

lemma main_vel_forces_only:
  assumes "u_noiseMode u = 5" "u_chargeInteraction u < 0.001" "\<bar>u_gravityInteraction u\<bar> < 0.001"
    "u_brownianMotion u = 0" "\<not> \<bar>u_globalSwirl u\<bar> > 0.001"
  shows "main_vel u tc =
    (let particle = texture_fetch (u_particles u) tc;
         pos = (fst particle, fst (snd particle));
         vel = (fst (snd (snd particle)), snd (snd (snd particle)));
         force = vadd (vadd (smul (getForceFieldEffect u pos) (u_forceFieldStrength u))
                            (main_mouseForce u pos)) (0, - u_globalGravity u)
     in smul (vadd vel (smul force 0.1)) (1 - u_friction u))"
  using assms
  by (simp add: main_vel_def Let_def getChargeInteraction_def getGravityInteraction_def
      main_brownian_def main_globalForces_def)


lemma main_position:
  "main u tc =
    (if random (vadd (smul tc 777) (u_time u, u_time u)) < u_respawnRate u
     then (random (snd tc * 9999, u_time u * 3.7 + fst tc * 1111) * fst (u_resolution u),
           random (u_time u * 2.3 + fst tc * 7777, snd tc * 3333) * snd (u_resolution u), 0, 0)
     else (wrap_axis (fst (u_resolution u)) (fst (main_moved u tc)),
           wrap_axis (snd (u_resolution u)) (snd (main_moved u tc)),
           fst (main_vel u tc), snd (main_vel u tc)))"
  by (simp add: main_def main_moved_def Let_def)







lemma texture_fetch_single: "texture_fetch \<lparr> tex_size = Suc 0, texels = [p] \<rparr> (1 / 2, 1 / 2) = p"
  by (simp add: texture_fetch_def texel_index_def Let_def)












subsection \<open>Two runs from the same state\<close>

lemma updateForceFields_no_spawn:
  "forceSpawnRate (configGL s) \<le> 0 \<Longrightarrow>
     updateForceFields s =
       s\<lparr>forceFieldsGL := uff_loop (canvas_width s) (canvas_height s)
                              (length (forceFieldsGL s)) (forceFieldsGL s)\<rparr>"
  by (simp add: updateForceFields_def Let_def)

lemma update_other_random_source:
  assumes "forceSpawnRate (configGL s) \<le> 0"
  shows "update (s\<lparr>rand := r, drawn := k\<rparr>) = (update s)\<lparr>rand := r, drawn := k\<rparr>"
proof -
  let ?s' = "s\<lparr>rand := r, drawn := k\<rparr>"
  have a: "updateForceFields ?s' = (updateForceFields s)\<lparr>rand := r, drawn := k\<rparr>"
    using assms by (simp add: updateForceFields_no_spawn)
  have su: "\<And>rt. set_uniforms (updateForceFields ?s') rt = set_uniforms (updateForceFields s) rt"
    unfolding a by (rule set_uniforms_cong) simp_all
  show ?thesis
    by (rule FlowFieldsGL.equality) (simp_all add: update_sel su, simp_all add: a)
qed

lemma funpow_update_config:
  "forceSpawnRate (configGL ((update ^^ n) s)) = forceSpawnRate (configGL s)"
  by (induction n) (simp_all add: update_sel)

lemma funpow_update_other_random_source:
  assumes "forceSpawnRate (configGL s) \<le> 0"
  shows "(update ^^ n) (s\<lparr>rand := r, drawn := k\<rparr>) = ((update ^^ n) s)\<lparr>rand := r, drawn := k\<rparr>"
proof (induction n)
  case 0
  show ?case by simp
next
  case (Suc n)
  have "forceSpawnRate (configGL ((update ^^ n) s)) \<le> 0"
    using assms by (simp add: funpow_update_config)
  then show ?case
    by (simp add: Suc update_other_random_source)
qed

text \<open>
  C5, as amended.  In the WebGL variant with the automatic spawning of force fields off
  (\<^verbatim>\<open>forceSpawnRate\<close> 0, the default), two runs of \<open>n\<close> steps that start from the same
  particles, force fields, pointer and configuration, and differ only in what
  \<^verbatim>\<open>Math.random\<close> would return, end with the same textures (positions and velocities), the
  same current texture and the same force fields.  This holds in every noise mode, the
  forces-only mode with no Brownian motion and no respawn included: the jitter and the
  respawn of the shader are hash functions of its inputs.
\<close>

theorem deterministic_steps:
  "forceSpawnRate (configGL s) \<le> 0 \<longrightarrow>
     particleTextures ((update ^^ n) (s\<lparr>rand := r, drawn := k\<rparr>)) = particleTextures ((update ^^ n) s)
   \<and> currentTexture ((update ^^ n) (s\<lparr>rand := r, drawn := k\<rparr>)) = currentTexture ((update ^^ n) s)
   \<and> render_points ((update ^^ n) (s\<lparr>rand := r, drawn := k\<rparr>)) = render_points ((update ^^ n) s)
   \<and> forceFieldsGL ((update ^^ n) (s\<lparr>rand := r, drawn := k\<rparr>)) = forceFieldsGL ((update ^^ n) s)"
  by (simp add: funpow_update_other_random_source render_points_def render_source_def)


theorem deterministic_steps_witness:
  "forceSpawnRate (configGL (quietGL (10, 20, 1, 2))) \<le> 0
   \<and> particleTextures ((update ^^ 2) ((quietGL (10, 20, 1, 2))\<lparr>rand := (\<lambda>k. 1 / 4), drawn := 7\<rparr>))
       = particleTextures ((update ^^ 2) (quietGL (10, 20, 1, 2)))"
proof -
  have h: "forceSpawnRate (configGL (quietGL (10, 20, 1, 2))) \<le> 0"
    by (simp add: quietGL_def defaultConfig_def)
  show ?thesis
    using deterministic_steps [where s = "quietGL (10, 20, 1, 2)" and n = 2 and r = "\<lambda>k. 1 / 4" and k = 7] h
    by simp
qed

lemma forces_only_main:
  assumes "u_noiseMode u = 5" "u_chargeInteraction u = 0" "u_gravityInteraction u = 0"
    "u_brownianMotion u = 0" "u_globalSwirl u = 0" "u_globalGravity u = 0" "u_friction u = 0"
    "u_respawnRate u = 0" "u_forceFieldStrength u = 1" "u_resolution u = (800, 600)"
    "u_mouse u = (- 1000, - 1000, 150)"
    "u_particles u = \<lparr> tex_size = Suc 0, texels = [(x, y, vx, vy)] \<rparr>" "0 \<le> x" "0 \<le> y"
  shows "main u (1 / 2, 1 / 2) =
      (wrap_axis 800 (x + (vx + fst (getForceFieldEffect u (x, y)) / 10)),
       wrap_axis 600 (y + (vy + snd (getForceFieldEffect u (x, y)) / 10)),
       vx + fst (getForceFieldEffect u (x, y)) / 10,
       vy + snd (getForceFieldEffect u (x, y)) / 10)"
proof -
  have far: "1000 \<le> gl_mouseDist u (x, y)"
    using sentinel_far[of "(x, y)"] assms by (simp add: gl_mouseDist_def)
  have mf: "main_mouseForce u (x, y) = (0, 0)"
    by (rule main_mouseForce_outside) (use far assms in simp)
  have vel: "main_vel u (1 / 2, 1 / 2) =
      (vx + fst (getForceFieldEffect u (x, y)) / 10, vy + snd (getForceFieldEffect u (x, y)) / 10)"
    by (subst main_vel_forces_only)
       (simp_all add: assms texture_fetch_single mf Let_def vadd_def smul_def)
  have mv: "main_moved u (1 / 2, 1 / 2) =
      (x + (vx + fst (getForceFieldEffect u (x, y)) / 10),
       y + (vy + snd (getForceFieldEffect u (x, y)) / 10))"
    by (simp add: main_moved_def assms texture_fetch_single vel vadd_def)
  have "\<not> random (vadd (smul (1 / 2, 1 / 2) 777) (u_time u, u_time u)) < u_respawnRate u"
    using random_bounds(1) by (simp add: assms not_less)
  then show ?thesis
    by (simp add: main_position mv vel assms)
qed

lemma quarter_random: "Math_random (\<lambda>k. 1 / 4) j = 1 / 4"
  by (simp add: Math_random_def fract_def floorf_def)

lemma spawning_fields:
  "forceFieldsGL (updateForceFields spawningGL) =
     [\<lparr> gf_x = 400, gf_y = 300, gf_type = 2, gf_strength = 100, gf_radius = 130, gf_rotation = - 1,
        gf_life = 750, gf_vx = 0, gf_vy = 0 \<rparr>]"
  "forceFieldsGL (updateForceFields (spawningGL\<lparr>rand := (\<lambda>k. 1 / 4)\<rparr>)) =
     [\<lparr> gf_x = 200, gf_y = 150, gf_type = 1, gf_strength = 75, gf_radius = 95, gf_rotation = - 1,
        gf_life = 625, gf_vx = - (1 / 8), gf_vy = - (1 / 8) \<rparr>]"
  by (simp_all add: updateForceFields_def addForceField_def spawningGL_def quietGL_def
      defaultConfig_def half_random quarter_random upt5 Let_def)


lemma spawning_uniforms:
  assumes "r = (\<lambda>k. 1 / 2) \<or> r = (\<lambda>k. 1 / 4)"
  shows "u_noiseMode (set_uniforms (updateForceFields (spawningGL\<lparr>rand := r\<rparr>)) t) = 5"
  "u_chargeInteraction (set_uniforms (updateForceFields (spawningGL\<lparr>rand := r\<rparr>)) t) = 0"
  "u_gravityInteraction (set_uniforms (updateForceFields (spawningGL\<lparr>rand := r\<rparr>)) t) = 0"
  "u_brownianMotion (set_uniforms (updateForceFields (spawningGL\<lparr>rand := r\<rparr>)) t) = 0"
  "u_globalSwirl (set_uniforms (updateForceFields (spawningGL\<lparr>rand := r\<rparr>)) t) = 0"
  "u_globalGravity (set_uniforms (updateForceFields (spawningGL\<lparr>rand := r\<rparr>)) t) = 0"
  "u_friction (set_uniforms (updateForceFields (spawningGL\<lparr>rand := r\<rparr>)) t) = 0"
  "u_respawnRate (set_uniforms (updateForceFields (spawningGL\<lparr>rand := r\<rparr>)) t) = 0"
  "u_forceFieldStrength (set_uniforms (updateForceFields (spawningGL\<lparr>rand := r\<rparr>)) t) = 1"
  "u_resolution (set_uniforms (updateForceFields (spawningGL\<lparr>rand := r\<rparr>)) t) = (800, 600)"
  "u_mouse (set_uniforms (updateForceFields (spawningGL\<lparr>rand := r\<rparr>)) t) = (- 1000, - 1000, 150)"
  "u_particles (set_uniforms (updateForceFields (spawningGL\<lparr>rand := r\<rparr>)) t) = t"
  "u_time (set_uniforms (updateForceFields (spawningGL\<lparr>rand := r\<rparr>)) t) = 0"
  "u_forceFieldCount (set_uniforms (updateForceFields (spawningGL\<lparr>rand := r\<rparr>)) t) = 1"
proof -
  have same: "spawningGL\<lparr>rand := \<lambda>k. 1 / 2\<rparr> = spawningGL"
    by (simp add: spawningGL_def quietGL_def)
  have len: "length (forceFieldsGL (updateForceFields (spawningGL\<lparr>rand := r\<rparr>))) = 1"
    using assms spawning_fields by (auto simp: same)
  show "u_noiseMode (set_uniforms (updateForceFields (spawningGL\<lparr>rand := r\<rparr>)) t) = 5"
  "u_chargeInteraction (set_uniforms (updateForceFields (spawningGL\<lparr>rand := r\<rparr>)) t) = 0"
  "u_gravityInteraction (set_uniforms (updateForceFields (spawningGL\<lparr>rand := r\<rparr>)) t) = 0"
  "u_brownianMotion (set_uniforms (updateForceFields (spawningGL\<lparr>rand := r\<rparr>)) t) = 0"
  "u_globalSwirl (set_uniforms (updateForceFields (spawningGL\<lparr>rand := r\<rparr>)) t) = 0"
  "u_globalGravity (set_uniforms (updateForceFields (spawningGL\<lparr>rand := r\<rparr>)) t) = 0"
  "u_friction (set_uniforms (updateForceFields (spawningGL\<lparr>rand := r\<rparr>)) t) = 0"
  "u_respawnRate (set_uniforms (updateForceFields (spawningGL\<lparr>rand := r\<rparr>)) t) = 0"
  "u_forceFieldStrength (set_uniforms (updateForceFields (spawningGL\<lparr>rand := r\<rparr>)) t) = 1"
  "u_resolution (set_uniforms (updateForceFields (spawningGL\<lparr>rand := r\<rparr>)) t) = (800, 600)"
  "u_mouse (set_uniforms (updateForceFields (spawningGL\<lparr>rand := r\<rparr>)) t) = (- 1000, - 1000, 150)"
  "u_particles (set_uniforms (updateForceFields (spawningGL\<lparr>rand := r\<rparr>)) t) = t"
  "u_time (set_uniforms (updateForceFields (spawningGL\<lparr>rand := r\<rparr>)) t) = 0"
  "u_forceFieldCount (set_uniforms (updateForceFields (spawningGL\<lparr>rand := r\<rparr>)) t) = 1"
    by (simp_all add: set_uniforms_def updateForceFields_frame len)
       (simp_all add: spawningGL_def quietGL_def defaultConfig_def)
qed

lemma one_field_effect:
  "u_forceFieldCount u = 1 \<Longrightarrow> getForceFieldEffect u pos = field_force u pos 0"
proof -
  assume c: "u_forceFieldCount u = 1"
  have one: "[0..<min 16 (nat (1::int))] = [0]" by simp
  show ?thesis unfolding getForceFieldEffect_first_16 c one by simp
qed

lemma sqrt_65600: "95 < sqrt 65600"
  by (rule real_less_rsqrt) simp

lemma spawning_effect_half:
  "getForceFieldEffect (set_uniforms (updateForceFields spawningGL) t) (400, 310) = (18 / 13, 0)"
proof -
  let ?s = "updateForceFields spawningGL"
  have same: "spawningGL\<lparr>rand := \<lambda>k. 1 / 2\<rparr> = spawningGL"
    by (simp add: spawningGL_def quietGL_def)
  have cnt: "u_forceFieldCount (set_uniforms ?s t) = 1"
    using spawning_uniforms(14)[of "\<lambda>k. 1 / 2" t] by (simp add: same)
  have i: "0 < length (forceFieldsGL ?s)" "0 < min (maxForceFields ?s) 40"
    by (simp_all add: spawning_fields updateForceFields_frame) (simp add: spawningGL_def quietGL_def)
  have r: "u_forceFields (set_uniforms ?s t) ! (0 * 8) = 400"
    "u_forceFields (set_uniforms ?s t) ! (0 * 8 + 1) = 300"
    "u_forceFields (set_uniforms ?s t) ! (0 * 8 + 2) = 2"
    "u_forceFields (set_uniforms ?s t) ! (0 * 8 + 3) = 100"
    "u_forceFields (set_uniforms ?s t) ! (0 * 8 + 4) = 130"
    "u_forceFields (set_uniforms ?s t) ! (0 * 8 + 5) = - 1"
    "u_forceFields (set_uniforms ?s t) ! (0 * 8 + 6) = 3 / 2"
    "u_forceFields (set_uniforms ?s t) ! (0 * 8 + 7) = 1"
    unfolding slot_reads[OF i] by (simp_all add: spawning_fields)
  have "field_force (set_uniforms ?s t) (400, 310) 0 = (18 / 13, 0)"
    unfolding field_force_def ffe_body_def Let_def r
    by (simp add: vsub_def vadd_def smul_def sdiv_def normalize_def vlength_def sqrt_100)
  then show ?thesis by (simp add: one_field_effect[OF cnt])
qed

lemma spawning_effect_quarter:
  "getForceFieldEffect (set_uniforms (updateForceFields (spawningGL\<lparr>rand := (\<lambda>k. 1 / 4)\<rparr>)) t) (400, 310)
     = (0, 0)"
proof -
  let ?s = "updateForceFields (spawningGL\<lparr>rand := (\<lambda>k. 1 / 4)\<rparr>)"
  have cnt: "u_forceFieldCount (set_uniforms ?s t) = 1"
    using spawning_uniforms(14)[of "\<lambda>k. 1 / 4" t] by simp
  have i: "0 < length (forceFieldsGL ?s)" "0 < min (maxForceFields ?s) 40"
    by (simp_all add: spawning_fields updateForceFields_frame) (simp add: spawningGL_def quietGL_def)
  have r: "u_forceFields (set_uniforms ?s t) ! (0 * 8) = 200"
    "u_forceFields (set_uniforms ?s t) ! (0 * 8 + 1) = 150"
    "u_forceFields (set_uniforms ?s t) ! (0 * 8 + 2) = 1"
    "u_forceFields (set_uniforms ?s t) ! (0 * 8 + 3) = 75"
    "u_forceFields (set_uniforms ?s t) ! (0 * 8 + 4) = 95"
    "u_forceFields (set_uniforms ?s t) ! (0 * 8 + 5) = - 1"
    "u_forceFields (set_uniforms ?s t) ! (0 * 8 + 6) = 5 / 4"
    "u_forceFields (set_uniforms ?s t) ! (0 * 8 + 7) = 1"
    unfolding slot_reads[OF i] by (simp_all add: spawning_fields)
  have "field_force (set_uniforms ?s t) (400, 310) 0 = (0, 0)"
    unfolding field_force_def ffe_body_def Let_def r
    by (simp add: vsub_def vlength_def sqrt_65600)
  then show ?thesis by (simp add: one_field_effect[OF cnt])
qed


lemma spawning_step:
  "particleTextures (update (spawningGL\<lparr>rand := r\<rparr>)) ! 1 =
     \<lparr> tex_size = Suc 0,
       texels = [main (set_uniforms (updateForceFields (spawningGL\<lparr>rand := r\<rparr>))
                         \<lparr> tex_size = Suc 0, texels = [(400, 310, 0, 0)] \<rparr>) (1 / 2, 1 / 2)] \<rparr>"
proof -
  have a: "particleTextures spawningGL ! 0 = \<lparr> tex_size = Suc 0, texels = [(400, 310, 0, 0)] \<rparr>"
    "textureSize spawningGL = 1" "currentTexture spawningGL = 0"
    "length (particleTextures spawningGL) = 2"
    by (simp_all add: spawningGL_def quietGL_def)
  show ?thesis
    by (simp add: update_sel a physics_pass_def texel_centre_def)
qed

lemma spawning_main_half:
  "main (set_uniforms (updateForceFields spawningGL) \<lparr> tex_size = Suc 0, texels = [(400, 310, 0, 0)] \<rparr>)
        (1 / 2, 1 / 2) = (400 + 9 / 65, 310, 9 / 65, 0)"
proof -
  have same: "spawningGL\<lparr>rand := \<lambda>k. 1 / 2\<rparr> = spawningGL"
    by (simp add: spawningGL_def quietGL_def)
  note u = spawning_uniforms[of "\<lambda>k. 1 / 2", unfolded same, simplified]
  show ?thesis
    by (subst forces_only_main[where x = 400 and y = 310 and vx = 0 and vy = 0])
       (simp_all add: u spawning_effect_half wrap_axis_def)
qed

lemma spawning_main_quarter:
  "main (set_uniforms (updateForceFields (spawningGL\<lparr>rand := (\<lambda>k. 1 / 4)\<rparr>))
          \<lparr> tex_size = Suc 0, texels = [(400, 310, 0, 0)] \<rparr>)
        (1 / 2, 1 / 2) = (400, 310, 0, 0)"
proof -
  note u = spawning_uniforms[of "\<lambda>k. 1 / 4", simplified]
  show ?thesis
    by (subst forces_only_main[where x = 400 and y = 310 and vx = 0 and vy = 0])
       (simp_all add: u spawning_effect_quarter wrap_axis_def)
qed

lemma oldWorld_animate:
  assumes "r = (\<lambda>k. c)" "0 \<le> c" "c < 1"
  shows "p_x (particles (animate (oldWorld\<lparr>c_rand := r\<rparr>)) ! 0) = c * 800"
proof -
  have rnd: "\<And>j. Math_random r j = c"
    using assms by (simp add: Math_random_def fract_def floorf_def floor_eq_iff)
  let ?w = "oldWorld\<lparr>c_rand := r, forceFields := [], c_drawn := Suc (c_drawn oldWorld)\<rparr>"
  have m: "total_move ?w 0 = (0, 0)"
    by (simp add: total_move_def flow_move_def fields_move_def interaction_move_def mouse_move_def
        mouse_in_reach_def oldWorld_def demoWorld_def config0_def Let_def)
  have pu: "particles (Particle_update ?w 0) = [Particle_reset (cfg oldWorld) 800 600 r 1]"
    unfolding Particle_update_def Let_def m
    by (simp add: oldWorld_def demoWorld_def demoParticle_def config0_def)
  have cfgs: "c_noiseMode (cfg oldWorld) = 5" "c_spawnRate (cfg oldWorld) = 0"
    "c_respawnRate (cfg oldWorld) = 0" "c_particleInteraction (cfg oldWorld) = ''none''"
    "c_particleCount (cfg oldWorld) = 1" "\<not> paused oldWorld" "forceFields oldWorld = []"
    "length (particles oldWorld) = 1"
    by (simp_all add: oldWorld_def demoWorld_def config0_def)
  have z: "nat \<lfloor>real (Suc 0) * (2 / 10 ^ 3)\<rfloor> = 0" by simp
  have "particles (animate (oldWorld\<lparr>c_rand := r\<rparr>)) = [Particle_reset (cfg oldWorld) 800 600 r 1]"
    using rnd assms(2)
    by (simp add: animate_def Let_def cfgs pu)
  then show ?thesis by (simp add: Particle_reset_def rnd)
qed

text \<open>
  C5.  The claim fails as soon as a step draws from \<^verbatim>\<open>Math.random\<close>.  In the WebGL variant
  with \<^verbatim>\<open>forceSpawnRate\<close> 60 the first frame spawns a force field where the random source
  says: with the draws \<open>1/2\<close> it is a vortex at \<open>(400, 300)\<close> that pushes the particle, with
  the draws \<open>1/4\<close> a source at \<open>(200, 150)\<close> out of reach.  In the canvas variant a particle
  past its \<^verbatim>\<open>maxLife\<close> is reset to a random position.  Both runs start from the same state
  in forces-only mode with Brownian amplitude 0 and respawn rate 0.
\<close>

theorem random_source_counterexample:
  "noiseMode (configGL spawningGL) = 5 \<and> brownianMotion (configGL spawningGL) = 0
   \<and> respawnRate (configGL spawningGL) = 0
   \<and> particleTextures (update spawningGL)
       \<noteq> particleTextures (update (spawningGL\<lparr>rand := (\<lambda>k. 1 / 4)\<rparr>))
   \<and> c_noiseMode (cfg oldWorld) = 5 \<and> c_brownianMotion (cfg oldWorld) = 0
   \<and> c_respawnRate (cfg oldWorld) = 0
   \<and> particles (animate (oldWorld\<lparr>c_rand := (\<lambda>k. 1 / 2)\<rparr>))
       \<noteq> particles (animate (oldWorld\<lparr>c_rand := (\<lambda>k. 1 / 4)\<rparr>))"
proof -
  have same: "spawningGL\<lparr>rand := \<lambda>k. 1 / 2\<rparr> = spawningGL"
    by (simp add: spawningGL_def quietGL_def)
  have a: "particleTextures (update spawningGL) ! 1
      = \<lparr> tex_size = Suc 0, texels = [(400 + 9 / 65, 310, 9 / 65, 0)] \<rparr>"
    using spawning_step[of "\<lambda>k. 1 / 2"] by (simp add: same spawning_main_half)
  have b: "particleTextures (update (spawningGL\<lparr>rand := (\<lambda>k. 1 / 4)\<rparr>)) ! 1
      = \<lparr> tex_size = Suc 0, texels = [(400, 310, 0, 0)] \<rparr>"
    using spawning_step[of "\<lambda>k. 1 / 4"] by (simp add: spawning_main_quarter)
  have gl: "particleTextures (update spawningGL)
       \<noteq> particleTextures (update (spawningGL\<lparr>rand := (\<lambda>k. 1 / 4)\<rparr>))"
  proof
    assume "particleTextures (update spawningGL)
       = particleTextures (update (spawningGL\<lparr>rand := (\<lambda>k. 1 / 4)\<rparr>))"
    then have "particleTextures (update spawningGL) ! 1
       = particleTextures (update (spawningGL\<lparr>rand := (\<lambda>k. 1 / 4)\<rparr>)) ! 1" by simp
    then show False unfolding a b by simp
  qed
  have x1: "p_x (particles (animate (oldWorld\<lparr>c_rand := (\<lambda>k. 1 / 2)\<rparr>)) ! 0) = 400"
    using oldWorld_animate[of "\<lambda>k. 1 / 2" "1 / 2"] by simp
  have x2: "p_x (particles (animate (oldWorld\<lparr>c_rand := (\<lambda>k. 1 / 4)\<rparr>)) ! 0) = 200"
    using oldWorld_animate[of "\<lambda>k. 1 / 4" "1 / 4"] by simp
  have cpu: "particles (animate (oldWorld\<lparr>c_rand := (\<lambda>k. 1 / 2)\<rparr>))
       \<noteq> particles (animate (oldWorld\<lparr>c_rand := (\<lambda>k. 1 / 4)\<rparr>))"
    using x1 x2 by auto
  show ?thesis
    using gl cpu
    by (simp add: spawningGL_def quietGL_def defaultConfig_def oldWorld_def config0_def)
qed

subsection \<open>One step in the classic noise mode\<close>

lemma wrap_axis_inside: "0 \<le> p \<Longrightarrow> p \<le> r \<Longrightarrow> wrap_axis r p = p"
  by (simp add: wrap_axis_def Let_def)

lemma scaled_trig_bound:
  assumes "\<bar>k\<bar> \<le> (100::real)"
  shows "\<bar>3 / 10 * k * cos a\<bar> \<le> 30" "\<bar>3 / 10 * k * sin a\<bar> \<le> 30"
    "\<bar>k * cos a\<bar> \<le> 100" "\<bar>k * sin a\<bar> \<le> 100"
proof -
  have c: "\<bar>k * cos a\<bar> \<le> \<bar>k\<bar> * 1" "\<bar>k * sin a\<bar> \<le> \<bar>k\<bar> * 1"
    unfolding abs_mult by (intro mult_left_mono; simp)+
  then show "\<bar>k * cos a\<bar> \<le> 100" "\<bar>k * sin a\<bar> \<le> 100"
    using assms by simp_all
  then show "\<bar>3 / 10 * k * cos a\<bar> \<le> 30" "\<bar>3 / 10 * k * sin a\<bar> \<le> 30"
    by (simp_all add: abs_mult mult.assoc)
qed

lemma classic_vel:
  assumes "classic_scene u tc"
  shows "main_vel u tc =
    (let a = (snoise (100 * u_noiseScale u + u_time u * 0.0001,
                      100 * u_noiseScale u + u_time u * 0.0001) + 0.2) * 12.566370614;
         k = 0.3 * (u_speed u * u_backgroundStrength u)
     in (k * cos a, k * sin a))"
proof -
  note h = assms[unfolded classic_scene_def]
  have far: "1000 \<le> gl_mouseDist u (100, 100)"
    using sentinel_far[of "(100, 100)"] h by (simp add: gl_mouseDist_def)
  have mf: "main_mouseForce u (100, 100) = (0, 0)"
    by (rule main_mouseForce_outside) (use far h in simp)
  have ff: "getForceFieldEffect u (100, 100) = (0, 0)"
    by (rule getForceFieldEffect_empty) (use h in simp)
  have fd: "main_flowDir u (100, 100) =
      smul (smul (cos ((snoise (100 * u_noiseScale u + u_time u * 0.0001,
                      100 * u_noiseScale u + u_time u * 0.0001) + 0.2) * 12.566370614),
                  sin ((snoise (100 * u_noiseScale u + u_time u * 0.0001,
                      100 * u_noiseScale u + u_time u * 0.0001) + 0.2) * 12.566370614))
                 (u_speed u)) (u_backgroundStrength u)"
    using h by (simp add: main_flowDir_def getNoiseValue_def Let_def)
  show ?thesis
    using h
    by (simp add: main_vel_def Let_def mf ff fd getChargeInteraction_def getGravityInteraction_def
        main_brownian_def main_globalForces_def main_zones_def mix_def vadd_def smul_def)
qed


lemma classic_main:
  assumes "classic_scene u tc"
  shows "main u tc =
    (let a = (snoise (100 * u_noiseScale u + u_time u * 0.0001,
                      100 * u_noiseScale u + u_time u * 0.0001) + 0.2) * 12.566370614;
         k = 0.3 * (u_speed u * u_backgroundStrength u)
     in (100 + k * cos a, 100 + k * sin a, k * cos a, k * sin a))"
proof -
  note h = assms[unfolded classic_scene_def]
  define a where "a = (snoise (100 * u_noiseScale u + u_time u * 0.0001,
                      100 * u_noiseScale u + u_time u * 0.0001) + 0.2) * 12.566370614"
  define k where "k = u_speed u * u_backgroundStrength u"
  have vel: "main_vel u tc = (3 / 10 * k * cos a, 3 / 10 * k * sin a)"
    using classic_vel[OF assms] by (simp add: Let_def a_def k_def)
  have mv: "main_moved u tc = (100 + 3 / 10 * k * cos a, 100 + 3 / 10 * k * sin a)"
    using h by (simp add: main_moved_def vel vadd_def)
  have kb: "\<bar>k\<bar> \<le> 100" using h by (simp add: k_def)
  have bx: "0 \<le> 100 + 3 / 10 * k * cos a" "100 + 3 / 10 * k * cos a \<le> fst (u_resolution u)"
    using scaled_trig_bound(1)[OF kb, of a] h by linarith+
  have bh: "0 \<le> 100 + 3 / 10 * k * sin a" "100 + 3 / 10 * k * sin a \<le> snd (u_resolution u)"
    using scaled_trig_bound(2)[OF kb, of a] h by linarith+
  have nr: "\<not> random (vadd (smul tc 777) (u_time u, u_time u)) < u_respawnRate u"
    using random_bounds(1) h by (simp add: not_less)
  have wx: "wrap_axis (fst (u_resolution u)) (100 + 3 / 10 * k * cos a) = 100 + 3 / 10 * k * cos a"
    by (rule wrap_axis_inside[OF bx])
  have wy: "wrap_axis (snd (u_resolution u)) (100 + 3 / 10 * k * sin a) = 100 + 3 / 10 * k * sin a"
    by (rule wrap_axis_inside[OF bh])
  have "main u tc = (wrap_axis (fst (u_resolution u)) (fst (main_moved u tc)),
           wrap_axis (snd (u_resolution u)) (snd (main_moved u tc)),
           fst (main_vel u tc), snd (main_vel u tc))"
    using nr by (simp add: main_position)
  also have "\<dots> = (100 + 3 / 10 * k * cos a, 100 + 3 / 10 * k * sin a,
                     3 / 10 * k * cos a, 3 / 10 * k * sin a)"
    unfolding mv vel fst_conv snd_conv wx wy by (rule refl)
  finally have "main u tc = (100 + 3 / 10 * k * cos a, 100 + 3 / 10 * k * sin a,
                     3 / 10 * k * cos a, 3 / 10 * k * sin a)" .
  then show ?thesis
    unfolding a_def k_def Let_def by simp
qed

lemma single_grid:
  "set (getNearbyParticles (buildSpatialGrid [p]) x y r) \<subseteq> {0}"
  by (auto simp: getNearbyParticles_def buildSpatialGrid_def Let_def split: if_splits)

lemma foldl_only_self:
  "set xs \<subseteq> {me} \<Longrightarrow> foldl (neighbour_step w me am) acc xs = acc"
  by (induction xs arbitrary: acc) (auto simp: neighbour_step_def split: prod.splits)

lemma classic_move:
  assumes "classic_world w"
  shows "total_move w 0 =
    (let p = particles w ! 0;
         th = noise2D (noise w) (100 * c_noiseScale (cfg w) + c_time w * 0.0001)
                                (100 * c_noiseScale (cfg w) + c_time w * 0.0001) * pi * 4
     in (cos th * p_speed p * c_backgroundStrength (cfg w),
         sin th * p_speed p * c_backgroundStrength (cfg w)))"
proof -
  note h = assms[unfolded classic_world_def]
  obtain p where ps: "particles w = [p]"
    using h by (cases "particles w") auto
  have near: "set (getNearbyParticles (spatialGrid w) x y r) \<subseteq> {0}" for x y r
    using h single_grid[of p x y r] by (simp add: ps)
  have im: "interaction_move w 0 mv = mv" for mv
    by (simp add: interaction_move_def Let_def foldl_only_self[OF near])
  have mm: "mouse_move w q mv = mv" for q mv
    using h by (simp add: mouse_move_def mouse_in_reach_def)
  show ?thesis
    using h
    by (simp add: total_move_def Let_def im mm fields_move_def flow_move_def mode_noiseVal_def)
qed

lemma classic_update:
  assumes "classic_world w"
  shows "(let p = particles w ! 0;
              th = noise2D (noise w) (100 * c_noiseScale (cfg w) + c_time w * 0.0001)
                                     (100 * c_noiseScale (cfg w) + c_time w * 0.0001) * pi * 4;
              k = p_speed p * c_backgroundStrength (cfg w);
              p' = particles (Particle_update w 0) ! 0
          in p_x p' = 100 + k * cos th \<and> p_y p' = 100 + k * sin th)"
proof -
  note h = assms[unfolded classic_world_def]
  define th where "th = noise2D (noise w) (100 * c_noiseScale (cfg w) + c_time w * 0.0001)
                                     (100 * c_noiseScale (cfg w) + c_time w * 0.0001) * pi * 4"
  define k where "k = p_speed (particles w ! 0) * c_backgroundStrength (cfg w)"
  have mv: "total_move w 0 = (k * cos th, k * sin th)"
    using classic_move[OF assms] by (simp add: Let_def th_def k_def mult.commute mult.left_commute)
  have kb: "\<bar>k\<bar> \<le> 100" using h by (simp add: k_def)
  have bx: "0 \<le> 100 + k * cos th" "100 + k * cos th \<le> c_width w"
    using scaled_trig_bound(3)[OF kb, of th] h by linarith+
  have bh: "0 \<le> 100 + k * sin th" "100 + k * sin th \<le> c_height w"
    using scaled_trig_bound(4)[OF kb, of th] h by linarith+
  have keep: "\<not> (100 + k * cos th < 0 \<or> 100 + k * cos th > c_width w
         \<or> 100 + k * sin th < 0 \<or> 100 + k * sin th > c_height w
         \<or> p_life (particles w ! 0) + 1 > p_maxLife (particles w ! 0))"
    using h bx bh by (simp add: not_less)
  have "p_x (particles (Particle_update w 0) ! 0) = 100 + k * cos th
      \<and> p_y (particles (Particle_update w 0) ! 0) = 100 + k * sin th"
    unfolding Particle_update_def Let_def mv fst_conv snd_conv
    using h keep by simp
  then show ?thesis
    by (simp add: Let_def th_def k_def)
qed

text \<open>
  C6, as amended.  In the scenario the step of the WebGL variant ends at
  \<open>(100, 100) + 0.3 * speed * backgroundStrength * (cos a, sin a)\<close> with
  \<open>a = (n + 0.2) * 12.566370614\<close>, where \<open>n\<close> is the noise sample at
  \<open>100 * noiseScale + time * 0.0001\<close> on both axes: the velocity is blended towards the flow
  by the factor 0.3 and the angle carries the offset \<open>(x + y) * 0.001\<close>.  The step of the
  canvas variant ends at \<open>(100, 100) + speed * backgroundStrength * (cos th, sin th)\<close> with
  \<open>th = n * 4 * pi\<close> and \<open>speed\<close> the particle's own speed.
\<close>

theorem classic_one_step:
  "(classic_scene u tc \<longrightarrow>
      main u tc =
        (let a = (snoise (100 * u_noiseScale u + u_time u * 0.0001,
                          100 * u_noiseScale u + u_time u * 0.0001) + 0.2) * 12.566370614;
             k = 0.3 * (u_speed u * u_backgroundStrength u)
         in (100 + k * cos a, 100 + k * sin a, k * cos a, k * sin a)))
   \<and> (classic_world w \<longrightarrow>
        (let p = particles w ! 0;
             th = noise2D (noise w) (100 * c_noiseScale (cfg w) + c_time w * 0.0001)
                                    (100 * c_noiseScale (cfg w) + c_time w * 0.0001) * pi * 4;
             k = p_speed p * c_backgroundStrength (cfg w);
             p' = particles (Particle_update w 0) ! 0
         in p_x p' = 100 + k * cos th \<and> p_y p' = 100 + k * sin th))"
  using classic_main[of u tc] classic_update[of w] by blast


lemma classicGL_scene:
  "classic_scene (set_uniforms classicGL (particleTextures classicGL ! 0)) (1 / 2, 1 / 2)"
  by (simp add: classic_scene_def set_uniforms_def classicGL_def quietGL_def defaultConfig_def
      texture_fetch_single)

lemma classicGL_update:
  "texels (render_source (update classicGL)) ! 0
     = main (set_uniforms classicGL (particleTextures classicGL ! 0)) (1 / 2, 1 / 2)"
proof -
  have u: "updateForceFields classicGL = classicGL"
    by (simp add: updateForceFields_def classicGL_def quietGL_def defaultConfig_def Let_def)
  have a: "textureSize classicGL = 1" "currentTexture classicGL = 0"
    "length (particleTextures classicGL) = 2"
    by (simp_all add: classicGL_def quietGL_def)
  show ?thesis
    by (simp add: render_source_def update_sel u a physics_pass_def texel_centre_def)
qed

text \<open>
  C6.  The claimed end position \<open>(100, 100) + speed * backgroundStrength * (cos th, sin th)\<close>,
  \<open>th\<close> being \<open>4 * pi\<close> times the noise sample at \<open>(100 * noiseScale, 100 * noiseScale)\<close>, is
  not where the WebGL variant puts the particle: with speed and background strength 1 the
  particle moves by 0.3, not by 1.
\<close>

theorem classic_step_counterexample:
  "(let t = texels (render_source (update classicGL)) ! 0;
        th = snoise (100 * noiseScale (configGL classicGL), 100 * noiseScale (configGL classicGL))
               * (4 * pi);
        k = speed (configGL classicGL) * backgroundStrength (configGL classicGL)
    in (fst t, fst (snd t)) \<noteq> (100 + k * cos th, 100 + k * sin th))"
proof -
  define a where "a = (snoise (100 * u_noiseScale (set_uniforms classicGL (particleTextures classicGL ! 0))
        + u_time (set_uniforms classicGL (particleTextures classicGL ! 0)) * 0.0001,
       100 * u_noiseScale (set_uniforms classicGL (particleTextures classicGL ! 0))
        + u_time (set_uniforms classicGL (particleTextures classicGL ! 0)) * 0.0001) + 0.2) * 12.566370614"
  define th where "th = snoise (100 * noiseScale (configGL classicGL), 100 * noiseScale (configGL classicGL))
               * (4 * pi)"
  have k: "speed (configGL classicGL) * backgroundStrength (configGL classicGL) = 1"
    "u_speed (set_uniforms classicGL (particleTextures classicGL ! 0))
       * u_backgroundStrength (set_uniforms classicGL (particleTextures classicGL ! 0)) = 1"
    by (simp_all add: set_uniforms_def classicGL_def quietGL_def defaultConfig_def)
  have t: "texels (render_source (update classicGL)) ! 0
      = (100 + 3 / 10 * cos a, 100 + 3 / 10 * sin a, 3 / 10 * cos a, 3 / 10 * sin a)"
    unfolding classicGL_update classic_main[OF classicGL_scene] Let_def k a_def by simp
  have "(100 + 3 / 10 * cos a, 100 + 3 / 10 * sin a) \<noteq> (100 + cos th, 100 + sin th)"
  proof
    assume "(100 + 3 / 10 * cos a, 100 + 3 / 10 * sin a) = (100 + cos th, 100 + sin th)"
    then have c: "cos th = 3 / 10 * cos a" and s: "sin th = 3 / 10 * sin a" by simp_all
    have "(sin th)\<^sup>2 + (cos th)\<^sup>2 = (3 / 10 * sin a)\<^sup>2 + (3 / 10 * cos a)\<^sup>2"
      unfolding c s by (rule refl)
    also have "\<dots> = (3 / 10)\<^sup>2 * ((sin a)\<^sup>2 + (cos a)\<^sup>2)"
      unfolding power_mult_distrib distrib_left by (rule refl)
    also have "\<dots> = 9 / 100"
      unfolding sin_squared_eq by (simp add: power2_eq_square)
    finally have "(sin th)\<^sup>2 + (cos th)\<^sup>2 = 9 / 100" .
    then show False by simp
  qed
  then show ?thesis
    unfolding Let_def t k th_def[symmetric] by simp
qed

theorem classic_one_step_witness:
  "classic_scene (set_uniforms classicGL (particleTextures classicGL ! 0)) (1 / 2, 1 / 2)
   \<and> fst (snd (snd (main (set_uniforms classicGL (particleTextures classicGL ! 0)) (1 / 2, 1 / 2))))
       = 3 / 10 * cos ((snoise (3 / 10, 3 / 10) + 2 / 10) * 12.566370614)
   \<and> classic_world classicWorld
   \<and> p_x (particles (Particle_update classicWorld 0) ! 0)
       = 100 + 2 * cos (noise2D (noise classicWorld) (3 / 10) (3 / 10) * pi * 4)"
proof -
  have w: "classic_world classicWorld"
    by (simp add: classic_world_def classicWorld_def demoWorld_def demoParticle_def config0_def)
  have v: "u_noiseScale (set_uniforms classicGL (particleTextures classicGL ! 0)) = 3 / 1000"
    "u_time (set_uniforms classicGL (particleTextures classicGL ! 0)) = 0"
    "u_speed (set_uniforms classicGL (particleTextures classicGL ! 0)) = 1"
    "u_backgroundStrength (set_uniforms classicGL (particleTextures classicGL ! 0)) = 1"
    "c_noiseScale (cfg classicWorld) = 3 / 1000" "c_time classicWorld = 0"
    "p_speed (particles classicWorld ! 0) = 2" "c_backgroundStrength (cfg classicWorld) = 1"
    by (simp_all add: set_uniforms_def classicGL_def quietGL_def defaultConfig_def
        classicWorld_def demoWorld_def demoParticle_def config0_def)
  show ?thesis
    using classic_one_step [of "set_uniforms classicGL (particleTextures classicGL ! 0)" "(1 / 2, 1 / 2)"
                              classicWorld] classicGL_scene w
    by (simp add: Let_def v)
qed

end
